theory Spec2Isabelle
  imports Complex_Main
begin

section \<open>Data model\<close>

text \<open>
  The development embeds the class \<^verbatim>\<open>Stokes\<close> of
  \<^verbatim>\<open>examples/stokes/source/stokes_ida.cc\<close>, instantiated at \<^verbatim>\<open>dim = 2\<close>
  (the only instantiation of the file). Conventions:
  \<^item> a \<^verbatim>\<open>double\<close> (and the \<^verbatim>\<open>float\<close> of the error indicator) is a \<open>real\<close>:
    rounding, infinities and NaN are not modelled, and a division is meaningful only
    where the divisor is not zero;
  \<^item> a distributed block vector \<^verbatim>\<open>VEC\<close> is its index set of locally owned elements
    together with its entries by global index; the blocks are the index ranges given by
    \<^verbatim>\<open>dofs_per_block\<close>; ghost layouts and sparsity patterns are not modelled, and
    \<^verbatim>\<open>compress\<close> is the identity;
  \<^item> member variables are the fields of the record \<open>Stokes\<close>; every member function
    takes the object and returns it updated, next to its return value and its
    reference arguments;
  \<^item> the finite element library, the mesh, the Krylov solvers and the message passing
    layer are not part of the file: what the code calls of them is a field of the record
    \<open>Library\<close>, and the general theorems hold for an arbitrary such record;
  \<^item> a vector passed by constant reference, and the output vector of \<open>residual\<close> and of
    \<open>solve_jacobian_system\<close>, is a value of its own; the two vectors that
    \<open>solver_should_restart\<close> takes by reference and rewrites are references
    (\<open>VEC_ref\<close>): \<^verbatim>\<open>run\<close> hands the member vectors \<^verbatim>\<open>solution\<close> and
    \<^verbatim>\<open>solution_dot\<close> to the integrator, so the function is modelled both for the
    members themselves and for vectors outside the object;
  \<^item> a linear operator is a term that holds the matrix blocks it wraps as they are when
    it is composed; between a setup and the solve that follows it the file changes
    neither matrix;
  \<^item> an exception is a value: \<open>SolverFGMRES_vmult\<close> returns the exception it throws, and
    \<open>solve_jacobian_system\<close> returns the exception that leaves it;
  \<^item> timers and console output are left out.
\<close>

definition dim :: nat where
  "dim = 2"

type_synonym Tensor1 = "real list"
type_synonym Tensor2 = "real list list"

text \<open>Contraction of two rank-1 tensors and full contraction of two rank-2 tensors.\<close>

definition dot :: "Tensor1 \<Rightarrow> Tensor1 \<Rightarrow> real" where
  "dot a b = sum_list (map2 (*) a b)"

definition scalar_product :: "Tensor2 \<Rightarrow> Tensor2 \<Rightarrow> real" where
  "scalar_product A B = sum_list (map2 dot A B)"

definition scale1 :: "real \<Rightarrow> Tensor1 \<Rightarrow> Tensor1" where
  "scale1 c a = map ((*) c) a"

definition scale2 :: "real \<Rightarrow> Tensor2 \<Rightarrow> Tensor2" where
  "scale2 c A = map (scale1 c) A"

record VEC =
  locally_owned_elements :: "nat list"
  val :: "nat \<Rightarrow> real"

text \<open>
  Modelled from the spec: the Constraint Set (the library's \<^verbatim>\<open>ConstraintMatrix\<close>, whose
  declaration is not in the file). Every constrained degree of freedom has one line: the
  affine combination (entries and an inhomogeneity) that gives its value.
\<close>

record ConstraintMatrix =
  lines :: "nat \<Rightarrow> ((nat \<times> real) list \<times> real) option"

definition clear :: "ConstraintMatrix" where
  "clear = \<lparr>lines = (\<lambda>_. None)\<rparr>"

definition is_constrained :: "ConstraintMatrix \<Rightarrow> nat \<Rightarrow> bool" where
  "is_constrained cm j = (lines cm j \<noteq> None)"

definition line_value :: "(nat \<Rightarrow> real) \<Rightarrow> (nat \<times> real) list \<times> real \<Rightarrow> real" where
  "line_value x l = sum_list (map (\<lambda>(k, a). a * x k) (fst l)) + snd l"

definition distribute :: "ConstraintMatrix \<Rightarrow> VEC \<Rightarrow> VEC" where
  "distribute cm v =
     v\<lparr>val := (\<lambda>j. case lines cm j of None \<Rightarrow> val v j | Some l \<Rightarrow> line_value (val v) l)\<rparr>"

text \<open>A vector satisfies the constraints when every constrained entry has its line's value.\<close>

definition satisfies_constraints :: "ConstraintMatrix \<Rightarrow> VEC \<Rightarrow> bool" where
  "satisfies_constraints cm v = (\<forall>j l. lines cm j = Some l \<longrightarrow> val v j = line_value (val v) l)"

subsection \<open>Matrices and linear operators\<close>

type_synonym BlockSparseMatrix = "nat \<Rightarrow> nat \<Rightarrow> real"

record MatrixBlock =
  block_m :: nat
  block_n :: nat
  block_el :: "nat \<Rightarrow> nat \<Rightarrow> real"

definition block_start :: "nat list \<Rightarrow> nat \<Rightarrow> nat" where
  "block_start dpb b = sum_list (take b dpb)"

definition block_size :: "nat list \<Rightarrow> nat \<Rightarrow> nat" where
  "block_size dpb b = (if b < length dpb then dpb ! b else 0)"

definition in_block :: "nat list \<Rightarrow> nat \<Rightarrow> nat \<Rightarrow> bool" where
  "in_block dpb b j = (block_start dpb b \<le> j \<and> j < block_start dpb (Suc b))"

definition block :: "nat list \<Rightarrow> BlockSparseMatrix \<Rightarrow> nat \<Rightarrow> nat \<Rightarrow> MatrixBlock" where
  "block dpb M r c =
     \<lparr>block_m = block_size dpb r, block_n = block_size dpb c,
      block_el = (\<lambda>i j. if i < block_size dpb r \<and> j < block_size dpb c
                         then M (block_start dpb r + i) (block_start dpb c + j) else 0)\<rparr>"

record AdditionalData =
  constant_modes :: "bool list list"
  elliptic :: bool
  higher_order_elements :: bool
  smoother_sweeps :: nat
  aggregation_threshold :: real

datatype Precondition =
    PreconditionJacobi MatrixBlock
  | PreconditionAMG MatrixBlock AdditionalData

text \<open>\<^verbatim>\<open>SolverCG\<close> with its \<^verbatim>\<open>ReductionControl(n, tol)\<close>.\<close>

datatype Solver = SolverCG nat real

datatype LinearOperator =
    linear_operator MatrixBlock
  | scaled real LinearOperator
  | composed LinearOperator LinearOperator
  | null_operator LinearOperator
  | inverse_operator LinearOperator Solver Precondition

type_synonym BlockLinearOperator = "LinearOperator list list"

datatype exn = NoConvergence | OtherException

record SolverControl =
  max_steps :: nat
  tolerance :: real

subsection \<open>What the code uses of a cell\<close>

text \<open>
  The values \<^verbatim>\<open>FEValues\<close> gives on a cell after \<^verbatim>\<open>reinit(cell)\<close>: shape function
  \<open>k\<close> at quadrature point \<open>q\<close> through the velocity and the pressure extractors, the
  fields of a global vector at the quadrature points, and the forcing term there.
\<close>

record Cell =
  is_locally_owned :: bool
  get_dof_indices :: "nat list"
  JxW :: "nat \<Rightarrow> real"
  u_value :: "nat \<Rightarrow> nat \<Rightarrow> Tensor1"
  u_symmetric_gradient :: "nat \<Rightarrow> nat \<Rightarrow> Tensor2"
  u_gradient :: "nat \<Rightarrow> nat \<Rightarrow> Tensor2"
  u_divergence :: "nat \<Rightarrow> nat \<Rightarrow> real"
  p_value :: "nat \<Rightarrow> nat \<Rightarrow> real"
  u_get_function_symmetric_gradients :: "VEC \<Rightarrow> nat \<Rightarrow> Tensor2"
  u_get_function_values :: "VEC \<Rightarrow> nat \<Rightarrow> Tensor1"
  u_get_function_divergences :: "VEC \<Rightarrow> nat \<Rightarrow> real"
  p_get_function_values :: "VEC \<Rightarrow> nat \<Rightarrow> real"
  forcing_term_vector_value_list :: "real \<Rightarrow> nat \<Rightarrow> nat \<Rightarrow> real"

subsection \<open>The collaborators\<close>

text \<open>
  The functions of the finite element library, of the mesh, of the solvers and of the
  message passing layer that the file calls, over an arbitrary type \<open>'m\<close> of meshes
  (a mesh stands for the triangulation together with the degrees of freedom distributed
  on it). \<open>SolverFGMRES_vmult\<close> is the application of
  \<^verbatim>\<open>inverse_operator(op, solver, preconditioner)\<close> to \<open>src\<close> from the initial guess
  \<open>dst\<close>: it returns the vector it leaves in \<open>dst\<close> and the exception it throws, if any.
  \<open>remote_estimates\<close> are the indicator vectors of the other worker processes, which run
  the same function. \<open>SolutionTransfer_interpolate\<close> takes the mesh as prepared for the
  refinement, the refined mesh, the vector handed to
  \<^verbatim>\<open>prepare_for_coarsening_and_refinement\<close> and the vector it writes to.
\<close>

record 'm Library =
  dofs_per_cell :: nat
  n_q_points :: nat
  system_to_component_index :: "nat \<Rightarrow> nat"
  active_cells :: "'m \<Rightarrow> Cell list"
  count_dofs_per_block :: "'m \<Rightarrow> nat list"
  locally_owned_dofs :: "'m \<Rightarrow> nat list"
  make_hanging_node_constraints :: "'m \<Rightarrow> ConstraintMatrix \<Rightarrow> ConstraintMatrix"
  interpolate_boundary_values :: "real \<Rightarrow> 'm \<Rightarrow> ConstraintMatrix \<Rightarrow> ConstraintMatrix"
  close :: "ConstraintMatrix \<Rightarrow> ConstraintMatrix"
  distribute_local_to_global_vector ::
    "ConstraintMatrix \<Rightarrow> (nat \<Rightarrow> real) \<Rightarrow> nat list \<Rightarrow> VEC \<Rightarrow> VEC"
  distribute_local_to_global_matrix ::
    "ConstraintMatrix \<Rightarrow> (nat \<Rightarrow> nat \<Rightarrow> real) \<Rightarrow> nat list \<Rightarrow> BlockSparseMatrix \<Rightarrow> BlockSparseMatrix"
  extract_constant_modes :: "'m \<Rightarrow> bool list list"
  SolverFGMRES_vmult ::
    "SolverControl \<Rightarrow> nat \<Rightarrow> BlockLinearOperator \<Rightarrow> BlockLinearOperator \<Rightarrow> VEC \<Rightarrow> VEC
      \<Rightarrow> VEC \<times> exn option"
  KellyErrorEstimator_estimate :: "'m \<Rightarrow> VEC \<Rightarrow> bool list \<Rightarrow> real list"
  remote_estimates :: "'m \<Rightarrow> VEC \<Rightarrow> bool list \<Rightarrow> real list list"
  refine_and_coarsen_fixed_fraction :: "'m \<Rightarrow> real list \<Rightarrow> real \<Rightarrow> real \<Rightarrow> 'm"
  refine_and_coarsen_fixed_number :: "'m \<Rightarrow> real list \<Rightarrow> real \<Rightarrow> real \<Rightarrow> int \<Rightarrow> 'm"
  prepare_coarsening_and_refinement :: "'m \<Rightarrow> 'm"
  execute_coarsening_and_refinement :: "'m \<Rightarrow> 'm"
  refine_global :: "nat \<Rightarrow> 'm \<Rightarrow> 'm"
  SolutionTransfer_interpolate :: "'m \<Rightarrow> 'm \<Rightarrow> VEC \<Rightarrow> VEC \<Rightarrow> VEC"
  interpolate_initial_solution :: "'m \<Rightarrow> VEC \<Rightarrow> VEC"
  interpolate_initial_solution_dot :: "'m \<Rightarrow> VEC \<Rightarrow> VEC"

subsection \<open>The object\<close>

record 'm Stokes =
  adaptive_refinement :: bool
  use_space_adaptivity :: bool
  kelly_threshold :: real
  max_cells :: int
  top_fraction :: real
  bottom_fraction :: real
  mu :: real
  triangulation :: "'m"
  dofs_per_block :: "nat list"
  global_partitioning :: "nat list"
  constraints :: ConstraintMatrix
  jacobian_matrix :: BlockSparseMatrix
  jacobian_preconditioner_matrix :: BlockSparseMatrix
  solution :: VEC
  solution_dot :: VEC
  distributed_solution :: VEC
  distributed_solution_dot :: VEC
  Mp_preconditioner :: "Precondition option"
  Amg_preconditioner :: "Precondition option"
  jacobian_op :: BlockLinearOperator
  jacobian_preconditioner_op :: BlockLinearOperator
  dirichlet_bcs_time :: real
  forcing_term_time :: real
  exact_solution_time :: real

section \<open>Operations\<close>

subsection \<open>Vectors and constrained entries\<close>

definition zero_vector :: "nat list \<Rightarrow> VEC" where
  "zero_vector owned = \<lparr>locally_owned_elements = owned, val = (\<lambda>_. 0)\<rparr>"

text \<open>\<^verbatim>\<open>v = 0\<close>: the layout stays, every entry becomes zero.\<close>

definition set_zero :: "VEC \<Rightarrow> VEC" where
  "set_zero v = v\<lparr>val := (\<lambda>_. 0)\<rparr>"

text \<open>\<^verbatim>\<open>a = b\<close> between vectors of one size: the entries are copied, the layout stays.\<close>

definition assign :: "VEC \<Rightarrow> VEC \<Rightarrow> VEC" where
  "assign a b = a\<lparr>val := val b\<rparr>"

definition set_entry :: "VEC \<Rightarrow> nat \<Rightarrow> real \<Rightarrow> VEC" where
  "set_entry v j x = v\<lparr>val := (val v)(j := x)\<rparr>"

text \<open>\<^verbatim>\<open>v.block(b) = c\<close>.\<close>

definition block_assign :: "nat list \<Rightarrow> VEC \<Rightarrow> nat \<Rightarrow> real \<Rightarrow> VEC" where
  "block_assign dpb v b c = v\<lparr>val := (\<lambda>j. if in_block dpb b j then c else val v j)\<rparr>"

definition set_constrained_dofs_to_zero :: "'m Stokes \<Rightarrow> VEC \<Rightarrow> VEC" where
  "set_constrained_dofs_to_zero s v =
     fold (\<lambda>j v. if is_constrained (constraints s) j then set_entry v j 0 else v)
       (global_partitioning s) v"

definition differential_components :: "'m Stokes \<Rightarrow> VEC" where
  "differential_components s =
     (let diff_comps = zero_vector (locally_owned_elements (solution s));
          diff_comps = block_assign (dofs_per_block s) diff_comps 0 1;
          diff_comps = block_assign (dofs_per_block s) diff_comps 1 0
      in set_constrained_dofs_to_zero s diff_comps)"

text \<open>
  The constraints as every assembly rebuilds them: cleared, hanging nodes, boundary values
  of \<^verbatim>\<open>dirichlet_bcs\<close> at its current time, closed.
\<close>

definition rebuild_constraints :: "'m Library \<Rightarrow> 'm Stokes \<Rightarrow> ConstraintMatrix" where
  "rebuild_constraints lib s =
     close lib (interpolate_boundary_values lib (dirichlet_bcs_time s) (triangulation s)
       (make_hanging_node_constraints lib (triangulation s) clear))"

subsection \<open>Discretization\<close>

definition zero_matrix :: BlockSparseMatrix where
  "zero_matrix = (\<lambda>_ _. 0)"

text \<open>
  \<^verbatim>\<open>setup_dofs\<close>: the block sizes, the index set of locally owned degrees of
  freedom and the constraints are taken anew from the mesh; both matrices and the four
  member vectors are reinitialised, which leaves them zero.
\<close>

definition setup_dofs :: "'m Library \<Rightarrow> bool \<Rightarrow> 'm Stokes \<Rightarrow> 'm Stokes" where
  "setup_dofs lib first_run s =
     (let owned = locally_owned_dofs lib (triangulation s);
          s = s\<lparr>dofs_per_block := count_dofs_per_block lib (triangulation s),
                global_partitioning := owned,
                constraints := rebuild_constraints lib s,
                jacobian_matrix := zero_matrix,
                jacobian_preconditioner_matrix := zero_matrix,
                solution := zero_vector owned,
                solution_dot := zero_vector owned,
                distributed_solution := zero_vector owned,
                distributed_solution_dot := zero_vector owned\<rparr>
      in if first_run
         then s\<lparr>solution := interpolate_initial_solution lib (triangulation s) (solution s),
                solution_dot := interpolate_initial_solution_dot lib (triangulation s) (solution_dot s)\<rparr>
         else s)"

subsection \<open>Jacobian and preconditioner assembly\<close>

definition add_entry :: "(nat \<Rightarrow> nat \<Rightarrow> real) \<Rightarrow> nat \<Rightarrow> nat \<Rightarrow> real \<Rightarrow> (nat \<Rightarrow> nat \<Rightarrow> real)" where
  "add_entry M i j x = M(i := (M i)(j := M i j + x))"

definition set_matrix_entry :: "BlockSparseMatrix \<Rightarrow> nat \<Rightarrow> nat \<Rightarrow> real \<Rightarrow> BlockSparseMatrix" where
  "set_matrix_entry M i j x = M(i := (M i)(j := x))"

text \<open>The two integrands of the loop body, at quadrature point \<open>q\<close> for the pair \<open>(i, j)\<close>.\<close>

definition cell_matrix_term :: "real \<Rightarrow> real \<Rightarrow> Cell \<Rightarrow> nat \<Rightarrow> nat \<Rightarrow> nat \<Rightarrow> real" where
  "cell_matrix_term alpha visc c q i j =
     (dot (scale1 alpha (u_value c i q)) (u_value c j q)
      + scalar_product (scale2 visc (u_symmetric_gradient c i q)) (u_symmetric_gradient c j q)
      - (u_divergence c i q * p_value c j q)
      - (p_value c i q * u_divergence c j q))
     * JxW c q"

definition cell_prec_term :: "real \<Rightarrow> real \<Rightarrow> Cell \<Rightarrow> nat \<Rightarrow> nat \<Rightarrow> nat \<Rightarrow> real" where
  "cell_prec_term alpha visc c q i j =
     (dot (scale1 (1 / alpha) (u_value c i q)) (u_value c j q)
      + visc * scalar_product (u_gradient c i q) (u_gradient c j q)
      + (1 / visc) * p_value c i q * p_value c j q)
     * JxW c q"

text \<open>The loops over the quadrature points and over the pairs of local shape functions.\<close>

definition assemble_cell ::
  "'m Library \<Rightarrow> real \<Rightarrow> real \<Rightarrow> Cell \<Rightarrow> (nat \<Rightarrow> nat \<Rightarrow> real) \<times> (nat \<Rightarrow> nat \<Rightarrow> real)" where
  "assemble_cell lib alpha visc c =
     fold (\<lambda>q. fold (\<lambda>i. fold (\<lambda>j (cell_matrix, cell_prec).
               (add_entry cell_matrix i j (cell_matrix_term alpha visc c q i j),
                add_entry cell_prec i j (cell_prec_term alpha visc c q i j)))
             [0..<dofs_per_cell lib]) [0..<dofs_per_cell lib]) [0..<n_q_points lib]
       (\<lambda>_ _. 0, \<lambda>_ _. 0)"

text \<open>The loop over the active cells: a locally owned cell scatters its two matrices.\<close>

definition assemble_cells ::
  "'m Library \<Rightarrow> ConstraintMatrix \<Rightarrow> real \<Rightarrow> real \<Rightarrow> Cell list
    \<Rightarrow> BlockSparseMatrix \<times> BlockSparseMatrix \<Rightarrow> BlockSparseMatrix \<times> BlockSparseMatrix" where
  "assemble_cells lib cm alpha visc cells =
     fold (\<lambda>c (J, P).
        if is_locally_owned c
        then (let (cell_matrix, cell_prec) = assemble_cell lib alpha visc c
              in (distribute_local_to_global_matrix lib cm cell_matrix (get_dof_indices c) J,
                  distribute_local_to_global_matrix lib cm cell_prec (get_dof_indices c) P))
        else (J, P)) cells"

definition set_constrained_diagonal ::
  "ConstraintMatrix \<Rightarrow> nat list \<Rightarrow> BlockSparseMatrix \<Rightarrow> BlockSparseMatrix" where
  "set_constrained_diagonal cm ids M =
     fold (\<lambda>j M. if is_constrained cm j then set_matrix_entry M j j 1 else M) ids M"

definition Amg_data :: "bool list list \<Rightarrow> AdditionalData" where
  "Amg_data modes =
     \<lparr>constant_modes = modes, elliptic = True, higher_order_elements = True,
      smoother_sweeps = 2, aggregation_threshold = 2 / 100\<rparr>"

definition solver_CG :: Solver where
  "solver_CG = SolverCG 5000 (1 / 10 ^ 8)"

text \<open>The first part of \<^verbatim>\<open>assemble_jacobian_matrix\<close>, up to the last \<^verbatim>\<open>compress\<close>.\<close>

definition assemble_matrices ::
  "'m Library \<Rightarrow> real \<Rightarrow> VEC \<Rightarrow> VEC \<Rightarrow> real \<Rightarrow> 'm Stokes \<Rightarrow> 'm Stokes" where
  "assemble_matrices lib t sol sol_dot alpha s =
     (let s = s\<lparr>jacobian_matrix := zero_matrix, dirichlet_bcs_time := t, exact_solution_time := t\<rparr>;
          s = s\<lparr>constraints := rebuild_constraints lib s\<rparr>;
          tmp = distribute (constraints s) sol;
          s = s\<lparr>distributed_solution := assign (distributed_solution s) tmp,
                distributed_solution_dot := assign (distributed_solution_dot s) sol_dot\<rparr>;
          (J, P) = assemble_cells lib (constraints s) alpha (mu s) (active_cells lib (triangulation s))
                     (jacobian_matrix s, jacobian_preconditioner_matrix s);
          J = set_constrained_diagonal (constraints s) (locally_owned_elements sol) J
      in s\<lparr>jacobian_matrix := J, jacobian_preconditioner_matrix := P\<rparr>)"

text \<open>The second part, from the comment \<^verbatim>\<open>Operators setup\<close> on.\<close>

definition operators_setup :: "'m Library \<Rightarrow> 'm Stokes \<Rightarrow> 'm Stokes" where
  "operators_setup lib s =
     (let J = jacobian_matrix s;
          P = jacobian_preconditioner_matrix s;
          dpb = dofs_per_block s;
          mp = PreconditionJacobi (block dpb P 1 1);
          amg = PreconditionAMG (block dpb P 0 0) (Amg_data (extract_constant_modes lib (triangulation s)));
          A = linear_operator (block dpb J 0 0);
          Bt = linear_operator (block dpb J 0 1);
          B = linear_operator (block dpb J 1 0);
          ZeroP = scaled 0 (linear_operator (block dpb J 1 1));
          Mp = linear_operator (block dpb P 1 1);
          A_inv = inverse_operator A solver_CG amg;
          Schur_inv = inverse_operator Mp solver_CG mp;
          P00 = A_inv;
          P01 = null_operator Bt;
          P10 = composed (composed Schur_inv B) A_inv;
          P11 = scaled (- 1) Schur_inv
      in s\<lparr>Mp_preconditioner := Some mp, Amg_preconditioner := Some amg,
            jacobian_op := [[A, Bt], [B, ZeroP]],
            jacobian_preconditioner_op := [[P00, P01], [P10, P11]]\<rparr>)"

definition assemble_jacobian_matrix ::
  "'m Library \<Rightarrow> real \<Rightarrow> VEC \<Rightarrow> VEC \<Rightarrow> real \<Rightarrow> 'm Stokes \<Rightarrow> 'm Stokes" where
  "assemble_jacobian_matrix lib t sol sol_dot alpha s =
     operators_setup lib (assemble_matrices lib t sol sol_dot alpha s)"

definition setup_jacobian ::
  "'m Library \<Rightarrow> real \<Rightarrow> VEC \<Rightarrow> VEC \<Rightarrow> VEC \<Rightarrow> real \<Rightarrow> 'm Stokes \<Rightarrow> int \<times> 'm Stokes" where
  "setup_jacobian lib t src_yy src_yp unused alpha s =
     (0, assemble_jacobian_matrix lib t src_yy src_yp alpha s)"

text \<open>
  What a linear operator does to a vector, given what an inner solve returns
  (\<open>inner\<close>, of the solver library).
\<close>

fun vmult ::
  "(LinearOperator \<Rightarrow> Solver \<Rightarrow> Precondition \<Rightarrow> (nat \<Rightarrow> real) \<Rightarrow> (nat \<Rightarrow> real))
    \<Rightarrow> LinearOperator \<Rightarrow> (nat \<Rightarrow> real) \<Rightarrow> (nat \<Rightarrow> real)" where
  "vmult inner (linear_operator M) x =
     (\<lambda>i. if i < block_m M then sum_list (map (\<lambda>j. block_el M i j * x j) [0..<block_n M]) else 0)"
| "vmult inner (scaled c a) x = (\<lambda>i. c * vmult inner a x i)"
| "vmult inner (composed a b) x = vmult inner a (vmult inner b x)"
| "vmult inner (null_operator a) x = (\<lambda>_. 0)"
| "vmult inner (inverse_operator a solver prec) x = inner a solver prec x"

subsection \<open>Residual\<close>

definition cell_rhs_term :: "real \<Rightarrow> Cell \<Rightarrow> VEC \<Rightarrow> VEC \<Rightarrow> nat \<Rightarrow> nat \<Rightarrow> real" where
  "cell_rhs_term visc c dsol dsol_dot q i =
     (dot (u_get_function_values c dsol_dot q) (u_value c i q)
      + visc * scalar_product (u_get_function_symmetric_gradients c dsol q) (u_symmetric_gradient c i q)
      - p_get_function_values c dsol q * u_divergence c i q
      - u_get_function_divergences c dsol q * p_value c i q)
     * JxW c q"

definition assemble_cell_rhs ::
  "'m Library \<Rightarrow> real \<Rightarrow> real \<Rightarrow> Cell \<Rightarrow> VEC \<Rightarrow> VEC \<Rightarrow> (nat \<Rightarrow> real)" where
  "assemble_cell_rhs lib visc t c dsol dsol_dot =
     fold (\<lambda>q. fold (\<lambda>i cell_rhs.
             (let cell_rhs = cell_rhs(i := cell_rhs i + cell_rhs_term visc c dsol dsol_dot q i);
                  comp_i = system_to_component_index lib i
              in if comp_i < dim
                 then cell_rhs(i := cell_rhs i
                        - forcing_term_vector_value_list c t q comp_i * (u_value c i q ! comp_i) * JxW c q)
                 else cell_rhs))
           [0..<dofs_per_cell lib]) [0..<n_q_points lib]
       (\<lambda>_. 0)"

definition overwrite_constrained :: "ConstraintMatrix \<Rightarrow> VEC \<Rightarrow> VEC \<Rightarrow> nat list \<Rightarrow> VEC \<Rightarrow> VEC" where
  "overwrite_constrained cm sol dsol ids dst =
     fold (\<lambda>j dst. if is_constrained cm j then set_entry dst j (val sol j - val dsol j) else dst)
       ids dst"

definition residual ::
  "'m Library \<Rightarrow> real \<Rightarrow> VEC \<Rightarrow> VEC \<Rightarrow> VEC \<Rightarrow> 'm Stokes \<Rightarrow> int \<times> VEC \<times> 'm Stokes" where
  "residual lib t sol sol_dot dst s =
     (let s = s\<lparr>dirichlet_bcs_time := t, forcing_term_time := t, exact_solution_time := t\<rparr>;
          s = s\<lparr>constraints := rebuild_constraints lib s\<rparr>;
          tmp = distribute (constraints s) sol;
          s = s\<lparr>distributed_solution := assign (distributed_solution s) tmp,
                distributed_solution_dot := assign (distributed_solution_dot s) sol_dot\<rparr>;
          dst = set_zero dst;
          dst = fold (\<lambda>c dst.
                  if is_locally_owned c
                  then distribute_local_to_global_vector lib (constraints s)
                         (assemble_cell_rhs lib (mu s) (forcing_term_time s) c
                            (distributed_solution s) (distributed_solution_dot s))
                         (get_dof_indices c) dst
                  else dst) (active_cells lib (triangulation s)) dst;
          dst = overwrite_constrained (constraints s) sol (distributed_solution s)
                  (locally_owned_elements sol) dst
      in (0, dst, s))"

subsection \<open>Linear solve\<close>

text \<open>\<^verbatim>\<open>jacobian_matrix.m()\<close>: the number of rows, the sum of the block sizes.\<close>

definition jacobian_matrix_m :: "'m Stokes \<Rightarrow> nat" where
  "jacobian_matrix_m s = sum_list (dofs_per_block s)"

text \<open>
  The result is the returned status or the exception that leaves the function, next to
  what is left in \<open>dst\<close>. Only \<^verbatim>\<open>SolverControl::NoConvergence\<close> is caught.
\<close>

definition solve_jacobian_system ::
  "'m Library \<Rightarrow> real \<Rightarrow> VEC \<Rightarrow> VEC \<Rightarrow> VEC \<Rightarrow> real \<Rightarrow> VEC \<Rightarrow> VEC \<Rightarrow> 'm Stokes
    \<Rightarrow> (exn + int) \<times> VEC" where
  "solve_jacobian_system lib t y y_dot unused alpha src dst s =
     (let dst = set_constrained_dofs_to_zero s dst;
          solver_tolerance = 1 / 10 ^ 8;
          solver_control = \<lparr>max_steps = 30, tolerance = solver_tolerance\<rparr>;
          solver_control_refined = \<lparr>max_steps = jacobian_matrix_m s, tolerance = solver_tolerance\<rparr>
      in case SolverFGMRES_vmult lib solver_control 30
                (jacobian_op s) (jacobian_preconditioner_op s) dst src of
           (dst, None) \<Rightarrow> (Inr 0, set_constrained_dofs_to_zero s dst)
         | (dst, Some NoConvergence) \<Rightarrow>
             (case SolverFGMRES_vmult lib solver_control_refined 50
                     (jacobian_op s) (jacobian_preconditioner_op s) dst src of
                (dst, None) \<Rightarrow> (Inr 0, set_constrained_dofs_to_zero s dst)
              | (dst, Some NoConvergence) \<Rightarrow> (Inr 1, dst)
              | (dst, Some e) \<Rightarrow> (Inl e, dst))
         | (dst, Some e) \<Rightarrow> (Inl e, dst))"

subsection \<open>Mesh adaptation\<close>

text \<open>\<^verbatim>\<open>Vector::linfty_norm\<close> and \<^verbatim>\<open>Utilities::MPI::max\<close> over the other workers' values.\<close>

definition linfty_norm :: "real list \<Rightarrow> real" where
  "linfty_norm xs = fold (\<lambda>x m. max m \<bar>x\<bar>) xs 0"

definition Utilities_MPI_max :: "real \<Rightarrow> real list \<Rightarrow> real" where
  "Utilities_MPI_max x others = fold max others x"

definition velocity_mask :: "bool list" where
  "velocity_mask = (replicate (dim + 1) True)[dim := False]"

text \<open>The indicator and its maximum, as the function computes them from its argument.\<close>

definition estimated_error_per_cell :: "'m Library \<Rightarrow> 'm Stokes \<Rightarrow> VEC \<Rightarrow> real list" where
  "estimated_error_per_cell lib s sol =
     KellyErrorEstimator_estimate lib (triangulation s)
       (assign (distributed_solution s) (distribute (constraints s) sol)) velocity_mask"

definition max_kelly :: "'m Library \<Rightarrow> 'm Stokes \<Rightarrow> VEC \<Rightarrow> real" where
  "max_kelly lib s sol =
     Utilities_MPI_max (linfty_norm (estimated_error_per_cell lib s sol))
       (map linfty_norm (remote_estimates lib (triangulation s)
          (assign (distributed_solution s) (distribute (constraints s) sol)) velocity_mask))"

text \<open>The cells flagged by the configured policy.\<close>

definition mark_cells :: "'m Library \<Rightarrow> 'm Stokes \<Rightarrow> real list \<Rightarrow> 'm" where
  "mark_cells lib s est =
     (if max_cells s < 0
      then refine_and_coarsen_fixed_fraction lib (triangulation s) est
             (top_fraction s) (bottom_fraction s)
      else refine_and_coarsen_fixed_number lib (triangulation s) est
             (top_fraction s) (bottom_fraction s) (max_cells s))"

text \<open>
  A reference argument of \<open>solver_should_restart\<close>: the member vector of the same name,
  or a vector outside the object. Reading goes through the object as it is at that
  moment, so a member that \<^verbatim>\<open>setup_dofs\<close> has re-initialised is read re-initialised.
\<close>

datatype VEC_ref = Member | Outside VEC

definition solution_at :: "'m Stokes \<Rightarrow> VEC_ref \<Rightarrow> VEC" where
  "solution_at s r = (case r of Member \<Rightarrow> solution s | Outside v \<Rightarrow> v)"

definition solution_dot_at :: "'m Stokes \<Rightarrow> VEC_ref \<Rightarrow> VEC" where
  "solution_dot_at s r = (case r of Member \<Rightarrow> solution_dot s | Outside v \<Rightarrow> v)"

definition put_solution :: "VEC_ref \<Rightarrow> VEC \<Rightarrow> 'm Stokes \<Rightarrow> 'm Stokes \<times> VEC_ref" where
  "put_solution r v s = (case r of Member \<Rightarrow> (s\<lparr>solution := v\<rparr>, Member) | Outside _ \<Rightarrow> (s, Outside v))"

definition put_solution_dot :: "VEC_ref \<Rightarrow> VEC \<Rightarrow> 'm Stokes \<Rightarrow> 'm Stokes \<times> VEC_ref" where
  "put_solution_dot r v s =
     (case r of Member \<Rightarrow> (s\<lparr>solution_dot := v\<rparr>, Member) | Outside _ \<Rightarrow> (s, Outside v))"

text \<open>
  The two vectors handed to the solution transfer: constructed as copies of the
  distributed member vectors, then assigned the arguments.
\<close>

definition snapshot :: "'m Stokes \<Rightarrow> VEC \<Rightarrow> VEC \<Rightarrow> VEC \<times> VEC" where
  "snapshot s sol_arg sol_dot_arg =
     (let sol = distributed_solution s;
          sol_dot = distributed_solution_dot s;
          sol = assign sol sol_arg;
          sol_dot = assign sol_dot sol_dot_arg
      in (sol, sol_dot))"

text \<open>
  The function returns its return value, what its two reference arguments hold when it
  returns, and the object.
\<close>

definition solver_should_restart ::
  "'m Library \<Rightarrow> real \<Rightarrow> nat \<Rightarrow> real \<Rightarrow> VEC_ref \<Rightarrow> VEC_ref \<Rightarrow> 'm Stokes
    \<Rightarrow> bool \<times> VEC \<times> VEC \<times> 'm Stokes" where
  "solver_should_restart lib t step_number h sol_arg sol_dot_arg s =
     (if use_space_adaptivity s
      then (let est = estimated_error_per_cell lib s (solution_at s sol_arg);
                mk = max_kelly lib s (solution_at s sol_arg);
                s = s\<lparr>distributed_solution :=
                        assign (distributed_solution s)
                          (distribute (constraints s) (solution_at s sol_arg))\<rparr>
            in if mk > kelly_threshold s
               then (let marked = mark_cells lib s est;
                         (sol, sol_dot) = snapshot s (solution_at s sol_arg) (solution_dot_at s sol_dot_arg);
                         prepared = prepare_coarsening_and_refinement lib marked;
                         refined = (if adaptive_refinement s
                                    then execute_coarsening_and_refinement lib prepared
                                    else refine_global lib 1 prepared);
                         s = setup_dofs lib False (s\<lparr>triangulation := refined\<rparr>);
                         tmp = SolutionTransfer_interpolate lib prepared refined sol
                                 (solution_at s sol_arg);
                         tmp_dot = SolutionTransfer_interpolate lib prepared refined sol_dot
                                     (solution_dot_at s sol_dot_arg);
                         (s, sol_arg) = put_solution sol_arg (assign (solution_at s sol_arg) tmp) s;
                         (s, sol_dot_arg) =
                           put_solution_dot sol_dot_arg (assign (solution_dot_at s sol_dot_arg) tmp_dot) s;
                         (s, sol_arg) =
                           put_solution sol_arg (distribute (constraints s) (solution_at s sol_arg)) s
                     in (True, solution_at s sol_arg, solution_dot_at s sol_dot_arg, s))
               else (False, solution_at s sol_arg, solution_dot_at s sol_dot_arg, s))
      else (False, solution_at s sol_arg, solution_dot_at s sol_dot_arg, s))"

text \<open>
  The mesh after \<^verbatim>\<open>prepare_coarsening_and_refinement\<close> and the mesh after the
  refinement that follows it, as \<open>solver_should_restart\<close> produces them when it triggers.
\<close>

definition refined_mesh :: "'m Library \<Rightarrow> 'm Stokes \<Rightarrow> VEC \<Rightarrow> 'm \<times> 'm" where
  "refined_mesh lib s sol =
     (let prepared = prepare_coarsening_and_refinement lib
                       (mark_cells lib s (estimated_error_per_cell lib s sol))
      in (prepared,
          if adaptive_refinement s
          then execute_coarsening_and_refinement lib prepared
          else refine_global lib 1 prepared))"

text \<open>
  The transfer as claim C6 words it, for comparison with \<open>solver_should_restart\<close>: both
  snapshots are taken with the constraints applied, and the rebuilt constraints are
  applied to both new vectors. Everything else is as in the code. It gives what the two
  reference arguments would hold on return.
\<close>

definition spec_mesh_transfer ::
  "'m Library \<Rightarrow> VEC_ref \<Rightarrow> VEC_ref \<Rightarrow> 'm Stokes \<Rightarrow> VEC \<times> VEC" where
  "spec_mesh_transfer lib sol_arg sol_dot_arg s =
     (let marked = mark_cells lib s (estimated_error_per_cell lib s (solution_at s sol_arg));
          sol = distribute (constraints s) (solution_at s sol_arg);
          sol_dot = distribute (constraints s) (solution_dot_at s sol_dot_arg);
          s = s\<lparr>distributed_solution := assign (distributed_solution s) sol\<rparr>;
          prepared = prepare_coarsening_and_refinement lib marked;
          refined = (if adaptive_refinement s
                     then execute_coarsening_and_refinement lib prepared
                     else refine_global lib 1 prepared);
          s = setup_dofs lib False (s\<lparr>triangulation := refined\<rparr>);
          tmp = SolutionTransfer_interpolate lib prepared refined sol (solution_at s sol_arg);
          tmp_dot = SolutionTransfer_interpolate lib prepared refined sol_dot
                      (solution_dot_at s sol_dot_arg)
      in (distribute (constraints s) (assign (solution_at s sol_arg) tmp),
          distribute (constraints s) (assign (solution_dot_at s sol_dot_arg) tmp_dot)))"

text \<open>
  The constraints an assembly at time \<open>t\<close> works with: \<open>rebuild_constraints\<close> once the
  time of \<^verbatim>\<open>dirichlet_bcs\<close> has been set to \<open>t\<close>.
\<close>

definition constraints_at :: "'m Library \<Rightarrow> real \<Rightarrow> 'm Stokes \<Rightarrow> ConstraintMatrix" where
  "constraints_at lib t s =
     close lib (interpolate_boundary_values lib t (triangulation s)
       (make_hanging_node_constraints lib (triangulation s) clear))"

text \<open>The scatter of the Jacobian and the scatter of the preconditioner, each on its own.\<close>

definition scatter_cells ::
  "'m Library \<Rightarrow> ConstraintMatrix \<Rightarrow> (Cell \<Rightarrow> nat \<Rightarrow> nat \<Rightarrow> real) \<Rightarrow> Cell list
    \<Rightarrow> BlockSparseMatrix \<Rightarrow> BlockSparseMatrix" where
  "scatter_cells lib cm local cells =
     fold (\<lambda>c M. if is_locally_owned c
                  then distribute_local_to_global_matrix lib cm (local c) (get_dof_indices c) M
                  else M) cells"

text \<open>
  The upper left block of the preconditioner as claim C7 words it, for comparison with
  the code: an inner solve with the velocity-velocity block of the preconditioner
  matrix, preconditioned by the multigrid built from the same block.
\<close>

definition claimed_A_inv :: "'m Library \<Rightarrow> 'm Stokes \<Rightarrow> LinearOperator" where
  "claimed_A_inv lib s =
     inverse_operator
       (linear_operator (block (dofs_per_block s) (jacobian_preconditioner_matrix s) 0 0))
       solver_CG
       (PreconditionAMG (block (dofs_per_block s) (jacobian_preconditioner_matrix s) 0 0)
          (Amg_data (extract_constant_modes lib (triangulation s))))"

section \<open>A small discretization\<close>

text \<open>
  One cell with two velocity degrees of freedom (0 and 1) and one pressure degree of
  freedom (2), one quadrature point, a Dirichlet value 5 on degree of freedom 0, and a
  scatter that adds the local entries of unconstrained rows and columns and puts the
  absolute local diagonal on constrained ones. The theorems below are instantiated on it.
\<close>

definition cell0 :: Cell where
  "cell0 =
     \<lparr>is_locally_owned = True,
      get_dof_indices = [0, 1, 2],
      JxW = (\<lambda>q. 1),
      u_value = (\<lambda>k q. if k = 2 then [0, 0] else [1, 0]),
      u_symmetric_gradient = (\<lambda>k q. [[0, 0], [0, 0]]),
      u_gradient = (\<lambda>k q. [[0, 0], [0, 0]]),
      u_divergence = (\<lambda>k q. 0),
      p_value = (\<lambda>k q. if k = 2 then 1 else 0),
      u_get_function_symmetric_gradients = (\<lambda>v q. [[0, 0], [0, 0]]),
      u_get_function_values = (\<lambda>v q. [val v 0 + val v 1, 0]),
      u_get_function_divergences = (\<lambda>v q. 0),
      p_get_function_values = (\<lambda>v q. val v 2),
      forcing_term_vector_value_list = (\<lambda>t q comp. 0)\<rparr>"

definition scatter_vector :: "ConstraintMatrix \<Rightarrow> (nat \<Rightarrow> real) \<Rightarrow> nat list \<Rightarrow> VEC \<Rightarrow> VEC" where
  "scatter_vector cm local ids v =
     fold (\<lambda>i v. if is_constrained cm (ids ! i) then v
                  else set_entry v (ids ! i) (val v (ids ! i) + local i))
       [0..<length ids] v"

definition scatter_matrix ::
  "ConstraintMatrix \<Rightarrow> (nat \<Rightarrow> nat \<Rightarrow> real) \<Rightarrow> nat list \<Rightarrow> BlockSparseMatrix \<Rightarrow> BlockSparseMatrix" where
  "scatter_matrix cm local ids M =
     fold (\<lambda>i. fold (\<lambda>j M.
             if is_constrained cm (ids ! i) \<or> is_constrained cm (ids ! j)
             then (if i = j then add_entry M (ids ! i) (ids ! i) \<bar>local i i\<bar> else M)
             else add_entry M (ids ! i) (ids ! j) (local i j))
           [0..<length ids]) [0..<length ids] M"

definition lib0 :: "nat Library" where
  "lib0 =
     \<lparr>dofs_per_cell = 3,
      n_q_points = 1,
      system_to_component_index = (\<lambda>i. if i = 2 then 2 else 0),
      active_cells = (\<lambda>m. [cell0]),
      count_dofs_per_block = (\<lambda>m. [2, 1]),
      locally_owned_dofs = (\<lambda>m. [0, 1, 2]),
      make_hanging_node_constraints = (\<lambda>m cm. cm),
      interpolate_boundary_values = (\<lambda>t m cm. cm\<lparr>lines := (lines cm)(0 \<mapsto> ([], 5))\<rparr>),
      close = (\<lambda>cm. cm),
      distribute_local_to_global_vector = scatter_vector,
      distribute_local_to_global_matrix = scatter_matrix,
      extract_constant_modes = (\<lambda>m. [[True, True, False]]),
      SolverFGMRES_vmult = (\<lambda>control basis A P dst src. (src, None)),
      KellyErrorEstimator_estimate = (\<lambda>m v mask. [val v 1]),
      remote_estimates = (\<lambda>m v mask. [[1 / 200]]),
      refine_and_coarsen_fixed_fraction = (\<lambda>m est top bottom. m),
      refine_and_coarsen_fixed_number = (\<lambda>m est top bottom n. m),
      prepare_coarsening_and_refinement = (\<lambda>m. m),
      execute_coarsening_and_refinement = Suc,
      refine_global = (\<lambda>n m. m + n),
      SolutionTransfer_interpolate =
        (\<lambda>old new snap out. out\<lparr>val := (val snap)(1 := (val snap 0 + val snap 1) / 2)\<rparr>),
      interpolate_initial_solution = (\<lambda>m v. v),
      interpolate_initial_solution_dot = (\<lambda>m v. v)\<rparr>"

definition cm0 :: ConstraintMatrix where
  "cm0 = \<lparr>lines = (\<lambda>_. None)(0 \<mapsto> ([], 5))\<rparr>"

definition stokes0 :: "nat Stokes" where
  "stokes0 =
     \<lparr>adaptive_refinement = True,
      use_space_adaptivity = True,
      kelly_threshold = 1 / 100,
      max_cells = 1000,
      top_fraction = 3 / 10,
      bottom_fraction = 1 / 10,
      mu = 1,
      triangulation = 0,
      dofs_per_block = [2, 1],
      global_partitioning = [0, 1, 2],
      constraints = cm0,
      jacobian_matrix = zero_matrix,
      jacobian_preconditioner_matrix = zero_matrix,
      solution = zero_vector [0, 1, 2],
      solution_dot = zero_vector [0, 1, 2],
      distributed_solution = zero_vector [0, 1, 2],
      distributed_solution_dot = zero_vector [0, 1, 2],
      Mp_preconditioner = None,
      Amg_preconditioner = None,
      jacobian_op = [],
      jacobian_preconditioner_op = [],
      dirichlet_bcs_time = 0,
      forcing_term_time = 0,
      exact_solution_time = 0\<rparr>"

text \<open>A vector that violates the boundary value at 0, and one that has it.\<close>

definition y0 :: VEC where
  "y0 = \<lparr>locally_owned_elements = [0, 1, 2], val = (\<lambda>j. if j = 1 then 1 else 0)\<rparr>"

definition y1 :: VEC where
  "y1 = \<lparr>locally_owned_elements = [0, 1, 2], val = (\<lambda>j. if j = 0 then 5 else 1)\<rparr>"


text \<open>The object once its member vectors \<^verbatim>\<open>solution\<close> and \<^verbatim>\<open>solution_dot\<close> hold \<open>y0\<close>.\<close>

definition stokes1 :: "nat Stokes" where
  "stokes1 = stokes0\<lparr>solution := y0, solution_dot := y0\<rparr>"

text \<open>Two solvers: one that converges only with the wider basis, one that never does.\<close>

definition converges_on_retry ::
  "SolverControl \<Rightarrow> nat \<Rightarrow> BlockLinearOperator \<Rightarrow> BlockLinearOperator \<Rightarrow> VEC \<Rightarrow> VEC
    \<Rightarrow> VEC \<times> exn option" where
  "converges_on_retry control basis A P dst src =
     (if basis = 30 then (dst, Some NoConvergence) else (src, None))"

definition never_converges ::
  "SolverControl \<Rightarrow> nat \<Rightarrow> BlockLinearOperator \<Rightarrow> BlockLinearOperator \<Rightarrow> VEC \<Rightarrow> VEC
    \<Rightarrow> VEC \<times> exn option" where
  "never_converges control basis A P dst src = (dst, Some NoConvergence)"

section \<open>Constrained entries of vectors\<close>

lemma val_set_constrained_fold:
  "val (fold (\<lambda>j v. if is_constrained cm j then set_entry v j 0 else v) ids v) j =
     (if j \<in> set ids \<and> is_constrained cm j then 0 else val v j)"
  by (induction ids arbitrary: v) (auto simp: set_entry_def)

lemma val_set_constrained_dofs_to_zero:
  "val (set_constrained_dofs_to_zero s v) j =
     (if j \<in> set (global_partitioning s) \<and> is_constrained (constraints s) j then 0 else val v j)"
  unfolding set_constrained_dofs_to_zero_def by (rule val_set_constrained_fold)

lemma val_overwrite_constrained:
  "val (overwrite_constrained cm sol dsol ids dst) j =
     (if j \<in> set ids \<and> is_constrained cm j then val sol j - val dsol j else val dst j)"
  unfolding overwrite_constrained_def
  by (induction ids arbitrary: dst) (auto simp: set_entry_def)

lemma in_block_disjoint: "in_block dpb 0 j \<Longrightarrow> \<not> in_block dpb 1 j"
  by (simp add: in_block_def)

lemma constraints_at_lib0: "constraints_at lib0 t stokes0 = cm0"
  by (simp add: constraints_at_def lib0_def clear_def cm0_def stokes0_def)

lemma is_constrained_cm0: "is_constrained cm0 j = (j = 0)"
  by (simp add: is_constrained_def cm0_def)

lemma satisfies_cm0: "satisfies_constraints cm0 v = (val v 0 = 5)"
  by (auto simp: satisfies_constraints_def cm0_def line_value_def)

section \<open>The differential and algebraic components\<close>

text \<open>
  Claim C9. The mask returned by \<open>differential_components\<close> is 1 on every unconstrained
  entry of the velocity block, 0 on every entry of the pressure block, and 0 on every
  locally owned constrained entry, whichever block it lies in.
\<close>

theorem differential_components_mask:
  "(in_block (dofs_per_block s) 0 j \<and> \<not> is_constrained (constraints s) j
      \<longrightarrow> val (differential_components s) j = 1)
   \<and> (in_block (dofs_per_block s) 1 j \<longrightarrow> val (differential_components s) j = 0)
   \<and> (j \<in> set (global_partitioning s) \<and> is_constrained (constraints s) j
      \<longrightarrow> val (differential_components s) j = 0)"
  using in_block_disjoint [of "dofs_per_block s" j]
  by (simp add: differential_components_def Let_def val_set_constrained_dofs_to_zero
      block_assign_def zero_vector_def)

theorem differential_components_mask_witness:
  "in_block (dofs_per_block stokes0) 0 1 \<and> \<not> is_constrained (constraints stokes0) 1
   \<and> val (differential_components stokes0) 1 = 1
   \<and> in_block (dofs_per_block stokes0) 1 2 \<and> val (differential_components stokes0) 2 = 0
   \<and> 0 \<in> set (global_partitioning stokes0) \<and> is_constrained (constraints stokes0) 0
   \<and> val (differential_components stokes0) 0 = 0"
  using differential_components_mask [of stokes0 1] differential_components_mask [of stokes0 2]
    differential_components_mask [of stokes0 0]
  by (simp add: stokes0_def is_constrained_cm0 in_block_def block_start_def)

section \<open>Return values of the residual and of the Jacobian setup\<close>

text \<open>
  Claim C10. For every input, \<open>residual\<close> and \<open>setup_jacobian\<close> return the status 0:
  neither reports a failure to the integrator through its return value.
\<close>

theorem status_zero:
  "fst (residual lib t sol sol_dot dst s) = 0
   \<and> fst (setup_jacobian lib t1 src_yy src_yp unused alpha s1) = 0"
  by (simp add: residual_def setup_jacobian_def Let_def)

section \<open>The residual on constrained degrees of freedom\<close>

lemma distribute_satisfied:
  "satisfies_constraints cm v \<Longrightarrow> val (distribute cm v) j = val v j"
  by (auto simp: satisfies_constraints_def distribute_def split: option.splits)

lemma residual_constraints:
  "constraints (snd (snd (residual lib t sol sol_dot dst s))) = constraints_at lib t s"
  by (simp add: residual_def Let_def rebuild_constraints_def constraints_at_def)

lemma residual_val_constrained:
  "j \<in> set (locally_owned_elements sol) \<Longrightarrow> is_constrained (constraints_at lib t s) j \<Longrightarrow>
     val (fst (snd (residual lib t sol sol_dot dst s))) j =
       val sol j - val (distribute (constraints_at lib t s) sol) j"
  by (simp add: residual_def Let_def rebuild_constraints_def constraints_at_def
      val_overwrite_constrained assign_def)

text \<open>
  Claim C1. After \<open>residual\<close>, on every locally owned degree of freedom \<open>j\<close> that the
  constraints rebuilt for the time of the call constrain, the returned entry is the
  entry of \<open>y\<close> minus the entry of the constraint-distributed copy of \<open>y\<close>; hence it is
  zero when \<open>y\<close> satisfies those constraints. They are the constraints the object holds
  after the call.
\<close>

theorem residual_constrained_entries:
  assumes "j \<in> set (locally_owned_elements sol)"
    and "is_constrained (constraints_at lib t s) j"
  shows "val (fst (snd (residual lib t sol sol_dot dst s))) j =
           val sol j - val (distribute (constraints_at lib t s) sol) j
         \<and> (satisfies_constraints (constraints_at lib t s) sol
              \<longrightarrow> val (fst (snd (residual lib t sol sol_dot dst s))) j = 0)
         \<and> constraints (snd (snd (residual lib t sol sol_dot dst s))) = constraints_at lib t s"
proof -
  have eq: "val (fst (snd (residual lib t sol sol_dot dst s))) j =
      val sol j - val (distribute (constraints_at lib t s) sol) j"
    using assms by (rule residual_val_constrained)
  then show ?thesis
    by (simp add: residual_constraints distribute_satisfied)
qed

theorem residual_constrained_entries_witness:
  "0 \<in> set (locally_owned_elements y1)
   \<and> is_constrained (constraints_at lib0 0 stokes0) 0
   \<and> satisfies_constraints (constraints_at lib0 0 stokes0) y1
   \<and> val (fst (snd (residual lib0 0 y1 y0 y0 stokes0))) 0 = 0
   \<and> 0 \<in> set (locally_owned_elements y0)
   \<and> val (fst (snd (residual lib0 0 y0 y0 y1 stokes0))) 0 = - 5"
proof -
  have h1: "0 \<in> set (locally_owned_elements y1)" "0 \<in> set (locally_owned_elements y0)"
    by (simp_all add: y1_def y0_def)
  have h2: "is_constrained (constraints_at lib0 0 stokes0) 0"
    by (simp add: constraints_at_lib0 is_constrained_cm0)
  have h3: "satisfies_constraints (constraints_at lib0 0 stokes0) y1"
    by (simp add: constraints_at_lib0 satisfies_cm0 y1_def)
  have d: "val (distribute (constraints_at lib0 0 stokes0) y0) 0 = 5" "val y0 0 = 0"
    by (simp_all add: constraints_at_lib0 distribute_def cm0_def line_value_def y0_def)
  from residual_constrained_entries [OF h1(1) h2, of y0 y0] h3
  have 1: "val (fst (snd (residual lib0 0 y1 y0 y0 stokes0))) 0 = 0" by blast
  from residual_constrained_entries [OF h1(2) h2, of y0 y1] d
  have 2: "val (fst (snd (residual lib0 0 y0 y0 y1 stokes0))) 0 = - 5" by simp
  from h1 h2 h3 1 2 show ?thesis by blast
qed

section \<open>The linear solve\<close>

lemma set_constrained_fold_eq:
  "fold (\<lambda>j v. if is_constrained cm j then set_entry v j 0 else v) ids v =
     v\<lparr>val := (\<lambda>j. if j \<in> set ids \<and> is_constrained cm j then 0 else val v j)\<rparr>"
proof (induction ids arbitrary: v)
  case Nil
  then show ?case by simp
next
  case (Cons a ids)
  have f: "(\<lambda>j. if j \<in> set ids \<and> is_constrained cm j then 0 else val (set_entry v a 0) j) =
      (\<lambda>j. if j \<in> set (a # ids) \<and> is_constrained cm j then 0 else val v j)"
    if "is_constrained cm a"
    using that by (auto simp: fun_eq_iff set_entry_def)
  show ?case
  proof (cases "is_constrained cm a")
    case True
    then show ?thesis
      using f by (simp add: Cons.IH) (simp add: set_entry_def)
  next
    case False
    then have "(\<lambda>j. if j \<in> set ids \<and> is_constrained cm j then 0 else val v j) =
      (\<lambda>j. if j \<in> set (a # ids) \<and> is_constrained cm j then 0 else val v j)"
      by (auto simp: fun_eq_iff)
    with False show ?thesis
      by (simp add: Cons.IH)
  qed
qed

lemma set_constrained_dofs_to_zero_eq:
  "set_constrained_dofs_to_zero s v =
     v\<lparr>val := (\<lambda>j. if j \<in> set (global_partitioning s) \<and> is_constrained (constraints s) j
                    then 0 else val v j)\<rparr>"
  unfolding set_constrained_dofs_to_zero_def by (rule set_constrained_fold_eq)

text \<open>
  Claim C2. \<open>solve_jacobian_system\<close> zeroes the locally owned constrained entries of
  \<open>dst\<close> (every other entry stays) and runs the flexible solver from there with at most
  30 steps, tolerance 1e-8 and a basis of 30; if that throws \<^verbatim>\<open>NoConvergence\<close> it runs
  the solver once more from what the first run left, with as many steps as the Jacobian
  matrix has rows (the sum of the block sizes) and a basis of 50; if that throws
  \<^verbatim>\<open>NoConvergence\<close> too it returns 1 with what the second run left; on success it
  returns 0 with the result, its locally owned constrained entries zeroed and every
  other entry as the solver left it. A \<^verbatim>\<open>NoConvergence\<close> never leaves the function.
  (\<open>d0\<close> is the initial guess; \<open>d1, e1\<close> and \<open>d2, e2\<close> name what the two runs leave in
  \<open>dst\<close> and throw.)
\<close>

theorem solve_jacobian_system_policy:
  assumes d0: "d0 = dst\<lparr>val := (\<lambda>j. if j \<in> set (global_partitioning s) \<and> is_constrained (constraints s) j
                                   then 0 else val dst j)\<rparr>"
    and first: "SolverFGMRES_vmult lib \<lparr>max_steps = 30, tolerance = 1 / 10 ^ 8\<rparr> 30
                    (jacobian_op s) (jacobian_preconditioner_op s) d0 src = (d1, e1)"
    and second: "SolverFGMRES_vmult lib
                    \<lparr>max_steps = sum_list (dofs_per_block s), tolerance = 1 / 10 ^ 8\<rparr> 50
                    (jacobian_op s) (jacobian_preconditioner_op s) d1 src = (d2, e2)"
  shows "(e1 = None \<longrightarrow>
            solve_jacobian_system lib t y y_dot unused alpha src dst s
              = (Inr 0, d1\<lparr>val := (\<lambda>j. if j \<in> set (global_partitioning s)
                                            \<and> is_constrained (constraints s) j
                                         then 0 else val d1 j)\<rparr>))
       \<and> (e1 = Some NoConvergence \<and> e2 = None \<longrightarrow>
            solve_jacobian_system lib t y y_dot unused alpha src dst s
              = (Inr 0, d2\<lparr>val := (\<lambda>j. if j \<in> set (global_partitioning s)
                                            \<and> is_constrained (constraints s) j
                                         then 0 else val d2 j)\<rparr>))
       \<and> (e1 = Some NoConvergence \<and> e2 = Some NoConvergence \<longrightarrow>
            solve_jacobian_system lib t y y_dot unused alpha src dst s = (Inr 1, d2))
       \<and> fst (solve_jacobian_system lib t y y_dot unused alpha src dst s) \<noteq> Inl NoConvergence
       \<and> (fst (solve_jacobian_system lib t y y_dot unused alpha src dst s) = Inr 0 \<longrightarrow>
            (\<forall>j \<in> set (global_partitioning s). is_constrained (constraints s) j \<longrightarrow>
               val (snd (solve_jacobian_system lib t y y_dot unused alpha src dst s)) j = 0))"
  using first second unfolding d0
  by (cases e1; cases e2)
    (auto simp: solve_jacobian_system_def Let_def set_constrained_dofs_to_zero_eq
      jacobian_matrix_m_def split: exn.splits)

theorem solve_jacobian_system_policy_witness:
  "solve_jacobian_system lib0 0 y0 y0 y0 1 y1 y0 stokes0
     = (Inr 0, y1\<lparr>val := (\<lambda>j. if j \<in> set (global_partitioning stokes0)
                                   \<and> is_constrained (constraints stokes0) j
                                then 0 else val y1 j)\<rparr>)
   \<and> val (snd (solve_jacobian_system lib0 0 y0 y0 y0 1 y1 y0 stokes0)) 0 = 0
   \<and> val (snd (solve_jacobian_system lib0 0 y0 y0 y0 1 y1 y0 stokes0)) 1 = 1
   \<and> solve_jacobian_system (lib0\<lparr>SolverFGMRES_vmult := converges_on_retry\<rparr>) 0 y0 y0 y0 1 y1 y0 stokes0
     = (Inr 0, y1\<lparr>val := (\<lambda>j. if j \<in> set (global_partitioning stokes0)
                                   \<and> is_constrained (constraints stokes0) j
                                then 0 else val y1 j)\<rparr>)
   \<and> solve_jacobian_system (lib0\<lparr>SolverFGMRES_vmult := never_converges\<rparr>) 0 y0 y0 y0 1 y1 y0 stokes0
     = (Inr 1, y0\<lparr>val := (\<lambda>j. if j \<in> set (global_partitioning stokes0)
                                   \<and> is_constrained (constraints stokes0) j
                                then 0 else val y0 j)\<rparr>)
   \<and> 0 \<in> set (global_partitioning stokes0) \<and> is_constrained (constraints stokes0) 0"
proof -
  let ?d0 = "y0\<lparr>val := (\<lambda>j. if j \<in> set (global_partitioning stokes0)
                                   \<and> is_constrained (constraints stokes0) j
                                then 0 else val y0 j)\<rparr>"
  let ?c30 = "\<lparr>max_steps = 30, tolerance = 1 / 10 ^ 8\<rparr>"
  let ?cm = "\<lparr>max_steps = sum_list (dofs_per_block stokes0), tolerance = 1 / 10 ^ 8\<rparr>"
  have a1: "SolverFGMRES_vmult lib0 ?c30 30
              (jacobian_op stokes0) (jacobian_preconditioner_op stokes0) ?d0 y1 = (y1, None)"
    by (simp add: lib0_def)
  have a2: "SolverFGMRES_vmult lib0 ?cm 50
              (jacobian_op stokes0) (jacobian_preconditioner_op stokes0) y1 y1 = (y1, None)"
    by (simp add: lib0_def)
  let ?libb = "lib0\<lparr>SolverFGMRES_vmult := converges_on_retry\<rparr>"
  have b1: "SolverFGMRES_vmult ?libb ?c30 30
              (jacobian_op stokes0) (jacobian_preconditioner_op stokes0) ?d0 y1
              = (?d0, Some NoConvergence)"
    by (simp add: converges_on_retry_def)
  have b2: "SolverFGMRES_vmult ?libb ?cm 50
              (jacobian_op stokes0) (jacobian_preconditioner_op stokes0) ?d0 y1 = (y1, None)"
    by (simp add: converges_on_retry_def)
  let ?libc = "lib0\<lparr>SolverFGMRES_vmult := never_converges\<rparr>"
  have c1: "SolverFGMRES_vmult ?libc ?c30 30
              (jacobian_op stokes0) (jacobian_preconditioner_op stokes0) ?d0 y1
              = (?d0, Some NoConvergence)"
    by (simp add: never_converges_def)
  have c2: "SolverFGMRES_vmult ?libc ?cm 50
              (jacobian_op stokes0) (jacobian_preconditioner_op stokes0) ?d0 y1
              = (?d0, Some NoConvergence)"
    by (simp add: never_converges_def)
  have g: "0 \<in> set (global_partitioning stokes0)" "is_constrained (constraints stokes0) 0"
    "\<not> is_constrained (constraints stokes0) 1"
    by (simp_all add: stokes0_def is_constrained_cm0)
  note A = solve_jacobian_system_policy [OF refl a1 a2, of 0 y0 y0 y0 1]
  note B = solve_jacobian_system_policy [OF refl b1 b2, of 0 y0 y0 y0 1]
  note C = solve_jacobian_system_policy [OF refl c1 c2, of 0 y0 y0 y0 1]
  from A have A1: "solve_jacobian_system lib0 0 y0 y0 y0 1 y1 y0 stokes0
     = (Inr 0, y1\<lparr>val := (\<lambda>j. if j \<in> set (global_partitioning stokes0)
                                   \<and> is_constrained (constraints stokes0) j
                                then 0 else val y1 j)\<rparr>)" by blast
  from B have B1: "solve_jacobian_system ?libb 0 y0 y0 y0 1 y1 y0 stokes0
     = (Inr 0, y1\<lparr>val := (\<lambda>j. if j \<in> set (global_partitioning stokes0)
                                   \<and> is_constrained (constraints stokes0) j
                                then 0 else val y1 j)\<rparr>)" by blast
  from C have C1: "solve_jacobian_system ?libc 0 y0 y0 y0 1 y1 y0 stokes0 = (Inr 1, ?d0)"
    by blast
  have A2: "val (snd (solve_jacobian_system lib0 0 y0 y0 y0 1 y1 y0 stokes0)) 0 = 0"
    unfolding A1 using g by simp
  have A3: "val (snd (solve_jacobian_system lib0 0 y0 y0 y0 1 y1 y0 stokes0)) 1 = 1"
    unfolding A1 using g by (simp add: y1_def)
  from A1 A2 A3 B1 C1 g show ?thesis by blast
qed


section \<open>Mesh adaptation\<close>

lemma solution_at_simps:
  "solution_at s Member = solution s" "solution_at s (Outside v) = v"
  "solution_dot_at s Member = solution_dot s" "solution_dot_at s (Outside v) = v"
  by (simp_all add: solution_at_def solution_dot_at_def)

text \<open>
  Claim C8. With \<^verbatim>\<open>use_space_adaptivity\<close> off, \<open>solver_should_restart\<close> returns false
  and leaves both vectors and the object (mesh and discretization included) as they
  were, whether the two arguments are the member vectors or vectors outside the object.
\<close>

theorem no_adaptivity_noop:
  "\<not> use_space_adaptivity s \<Longrightarrow>
     solver_should_restart lib t step_number h sol_arg sol_dot_arg s
       = (False, solution_at s sol_arg, solution_dot_at s sol_dot_arg, s)
     \<and> solver_should_restart lib t step_number h (Outside sol) (Outside sol_dot) s
       = (False, sol, sol_dot, s)
     \<and> solver_should_restart lib t step_number h Member Member s
       = (False, solution s, solution_dot s, s)"
  by (simp add: solver_should_restart_def solution_at_simps)

theorem no_adaptivity_noop_witness:
  "\<not> use_space_adaptivity (stokes1\<lparr>use_space_adaptivity := False\<rparr>)
   \<and> solver_should_restart lib0 0 1 1 (Outside y0) (Outside y1) (stokes1\<lparr>use_space_adaptivity := False\<rparr>)
       = (False, y0, y1, stokes1\<lparr>use_space_adaptivity := False\<rparr>)
   \<and> solver_should_restart lib0 0 1 1 Member Member (stokes1\<lparr>use_space_adaptivity := False\<rparr>)
       = (False, y0, y0, stokes1\<lparr>use_space_adaptivity := False\<rparr>)"
  using no_adaptivity_noop [of "stokes1\<lparr>use_space_adaptivity := False\<rparr>" lib0 0 1 1 Member Member y0 y1]
  by (simp add: stokes1_def solution_at_simps)


lemma fold_max_Max: "fold max xs (a::real) = Max (insert a (set xs))"
  using Max.set_eq_fold [of a xs] by simp

lemma linfty_norm_fold: "linfty_norm xs = fold max (map abs xs) 0"
proof -
  have "(\<lambda>x m. max m \<bar>x\<bar>) = (max \<circ> abs :: real \<Rightarrow> real \<Rightarrow> real)"
    by (auto simp: fun_eq_iff max.commute)
  then show ?thesis
    by (simp add: linfty_norm_def fold_map)
qed

lemma linfty_norm_Max: "linfty_norm xs = Max (insert 0 (abs ` set xs))"
  by (simp add: linfty_norm_fold fold_max_Max)

lemma linfty_norm_ge: "x \<in> set xs \<Longrightarrow> \<bar>x\<bar> \<le> linfty_norm xs"
  by (simp add: linfty_norm_Max)

lemma linfty_norm_in: "linfty_norm xs \<in> insert 0 (abs ` set xs)"
  unfolding linfty_norm_Max by (rule Max_in) auto

text \<open>The reduction over the workers of the norms of their indicator vectors.\<close>

lemma global_max_is_Max:
  "Utilities_MPI_max (linfty_norm est) (map linfty_norm remote) =
     Max (insert 0 (abs ` (set est \<union> (\<Union>e \<in> set remote. set e))))"
proof -
  let ?m = "Utilities_MPI_max (linfty_norm est) (map linfty_norm remote)"
  let ?A = "insert 0 (abs ` (set est \<union> (\<Union>e \<in> set remote. set e)))"
  have m: "?m = Max (insert (linfty_norm est) (linfty_norm ` set remote))"
    by (simp add: Utilities_MPI_max_def fold_max_Max)
  have fin: "finite ?A" by simp
  have own: "linfty_norm est \<le> ?m"
    unfolding m by (rule Max_ge) auto
  have rem: "linfty_norm e \<le> ?m" if "e \<in> set remote" for e
    unfolding m using that by (intro Max_ge) auto
  have ub: "y \<le> ?m" if "y \<in> ?A" for y
  proof -
    from that consider "y = 0" | x where "x \<in> set est" "y = \<bar>x\<bar>"
      | e x where "e \<in> set remote" "x \<in> set e" "y = \<bar>x\<bar>"
      by auto
    then show ?thesis
    proof cases
      case 1
      have "0 \<le> linfty_norm est" using linfty_norm_in [of est] by auto
      with own 1 show ?thesis by simp
    next
      case 2
      with linfty_norm_ge [of x est] own show ?thesis by simp
    next
      case 3
      with linfty_norm_ge [of x e] rem [of e] show ?thesis by simp
    qed
  qed
  have "?m \<in> insert (linfty_norm est) (linfty_norm ` set remote)"
    unfolding m by (rule Max_in) auto
  then have mem: "?m \<in> ?A"
    using linfty_norm_in [of est] linfty_norm_in by fastforce
  show ?thesis
    using Max_eqI [OF fin ub mem] by simp
qed

lemma triangulation_setup_dofs: "triangulation (setup_dofs lib b s) = triangulation s"
  by (simp add: setup_dofs_def Let_def)

lemma constraints_setup_dofs:
  "constraints (setup_dofs lib b s) = constraints_at lib (dirichlet_bcs_time s) s"
  by (simp add: setup_dofs_def Let_def rebuild_constraints_def constraints_at_def)

lemma solver_should_restart_not_triggered:
  assumes "use_space_adaptivity s"
    and "\<not> kelly_threshold s < max_kelly lib s (solution_at s sol_arg)"
  shows "solver_should_restart lib t step_number h sol_arg sol_dot_arg s =
     (False, solution_at s sol_arg, solution_dot_at s sol_dot_arg,
      s\<lparr>distributed_solution :=
          assign (distributed_solution s) (distribute (constraints s) (solution_at s sol_arg))\<rparr>)"
  using assms unfolding solver_should_restart_def Let_def
  by (cases sol_arg; cases sol_dot_arg) (simp_all add: solution_at_simps)

lemma put_simps:
  "put_solution Member v s = (s\<lparr>solution := v\<rparr>, Member)"
  "put_solution (Outside w) v s = (s, Outside v)"
  "put_solution_dot Member v s = (s\<lparr>solution_dot := v\<rparr>, Member)"
  "put_solution_dot (Outside w) v s = (s, Outside v)"
  by (simp_all add: put_solution_def put_solution_dot_def)

lemma setup_dofs_vectors:
  "solution (setup_dofs lib False s) = zero_vector (locally_owned_dofs lib (triangulation s))"
  "solution_dot (setup_dofs lib False s) = zero_vector (locally_owned_dofs lib (triangulation s))"
  unfolding setup_dofs_def Let_def by simp_all

text \<open>What the triggered branch returns, by the kind of the two references.\<close>

lemma solver_should_restart_triggered:
  assumes "use_space_adaptivity s"
    and "kelly_threshold s < max_kelly lib s (solution_at s sol_arg)"
    and "d = assign (distributed_solution s) (distribute (constraints s) (solution_at s sol_arg))"
    and "refined_mesh lib s (solution_at s sol_arg) = (prepared, refined)"
    and "s1 = setup_dofs lib False (s\<lparr>distributed_solution := d, triangulation := refined\<rparr>)"
    and "y' = distribute (constraints s1)
                (assign (solution_at s1 sol_arg)
                   (SolutionTransfer_interpolate lib prepared refined
                      (assign d (solution_at s sol_arg)) (solution_at s1 sol_arg)))"
    and "yd' = assign (solution_dot_at s1 sol_dot_arg)
                 (SolutionTransfer_interpolate lib prepared refined
                    (assign (distributed_solution_dot s) (solution_dot_at s sol_dot_arg))
                    (solution_dot_at s1 sol_dot_arg))"
  shows "solver_should_restart lib t step_number h sol_arg sol_dot_arg s =
     (True, y', yd',
      (case sol_arg of Member \<Rightarrow> (\<lambda>s. s\<lparr>solution := y'\<rparr>) | Outside _ \<Rightarrow> (\<lambda>s. s))
        ((case sol_dot_arg of Member \<Rightarrow> (\<lambda>s. s\<lparr>solution_dot := yd'\<rparr>) | Outside _ \<Rightarrow> (\<lambda>s. s)) s1))"
proof -
  have m: "prepared = prepare_coarsening_and_refinement lib
             (mark_cells lib s (estimated_error_per_cell lib s (solution_at s sol_arg)))"
    "refined = (if adaptive_refinement s
                then execute_coarsening_and_refinement lib prepared
                else refine_global lib 1 prepared)"
    using assms(4) by (auto simp: refined_mesh_def Let_def)
  have mc: "mark_cells lib (s\<lparr>distributed_solution := x\<rparr>) = mark_cells lib s" for x
    by (simp add: mark_cells_def fun_eq_iff)
  show ?thesis
    unfolding solver_should_restart_def Let_def snapshot_def split_beta
    using assms(1,2)
    by (cases sol_arg; cases sol_dot_arg)
      (simp_all add: assms(3,5,6,7) m solution_at_simps put_simps mc)
qed

lemma triangulation_after_put:
  "triangulation
     ((case r of Member \<Rightarrow> (\<lambda>s. s\<lparr>solution := a\<rparr>) | Outside _ \<Rightarrow> (\<lambda>s. s))
        ((case rd of Member \<Rightarrow> (\<lambda>s. s\<lparr>solution_dot := b\<rparr>) | Outside _ \<Rightarrow> (\<lambda>s. s)) s))
     = triangulation s"
  "constraints
     ((case r of Member \<Rightarrow> (\<lambda>s. s\<lparr>solution := a\<rparr>) | Outside _ \<Rightarrow> (\<lambda>s. s))
        ((case rd of Member \<Rightarrow> (\<lambda>s. s\<lparr>solution_dot := b\<rparr>) | Outside _ \<Rightarrow> (\<lambda>s. s)) s))
     = constraints s"
  by (simp_all split: VEC_ref.splits)

text \<open>
  Claim C5. With space adaptivity on, \<open>solver_should_restart\<close> returns true exactly when
  the maximum over all cells and all workers of the absolute Kelly indicator, estimated
  from the constraint-distributed solution with the pressure component masked out, is
  strictly greater than \<^verbatim>\<open>kelly_threshold\<close>. When it is, the cells are marked by fixed
  fraction when \<^verbatim>\<open>max_cells\<close> is negative and by fixed number capped at
  \<^verbatim>\<open>max_cells\<close> otherwise, with the configured top and bottom fractions, and the mesh
  the function leaves is the refined one. When it is not, the function returns false
  with both vectors as they were and the object unchanged but for the member
  \<^verbatim>\<open>distributed_solution\<close>: the mesh does not change.
\<close>

theorem solver_should_restart_trigger:
  assumes "use_space_adaptivity s" and "y = solution_at s sol_arg"
  shows "fst (solver_should_restart lib t step_number h sol_arg sol_dot_arg s)
           = (kelly_threshold s < max_kelly lib s y)
       \<and> max_kelly lib s y =
           Max (insert 0 (abs ` (set (estimated_error_per_cell lib s y)
             \<union> (\<Union>e \<in> set (remote_estimates lib (triangulation s)
                   (assign (distributed_solution s) (distribute (constraints s) y))
                   [True, True, False]). set e))))
       \<and> estimated_error_per_cell lib s y =
           KellyErrorEstimator_estimate lib (triangulation s)
             (assign (distributed_solution s) (distribute (constraints s) y)) [True, True, False]
       \<and> (kelly_threshold s < max_kelly lib s y \<longrightarrow>
            triangulation (snd (snd (snd (solver_should_restart lib t step_number h sol_arg sol_dot_arg s))))
              = (if adaptive_refinement s
                 then execute_coarsening_and_refinement lib
                        (prepare_coarsening_and_refinement lib
                          (mark_cells lib s (estimated_error_per_cell lib s y)))
                 else refine_global lib 1
                        (prepare_coarsening_and_refinement lib
                          (mark_cells lib s (estimated_error_per_cell lib s y)))))
       \<and> (\<not> kelly_threshold s < max_kelly lib s y \<longrightarrow>
            solver_should_restart lib t step_number h sol_arg sol_dot_arg s
              = (False, y, solution_dot_at s sol_dot_arg,
                 s\<lparr>distributed_solution :=
                     assign (distributed_solution s) (distribute (constraints s) y)\<rparr>))
       \<and> (max_cells s < 0 \<longrightarrow>
            mark_cells lib s (estimated_error_per_cell lib s y)
              = refine_and_coarsen_fixed_fraction lib (triangulation s)
                  (estimated_error_per_cell lib s y) (top_fraction s) (bottom_fraction s))
       \<and> (\<not> max_cells s < 0 \<longrightarrow>
            mark_cells lib s (estimated_error_per_cell lib s y)
              = refine_and_coarsen_fixed_number lib (triangulation s)
                  (estimated_error_per_cell lib s y) (top_fraction s) (bottom_fraction s)
                  (max_cells s))"
proof -
  have mask: "velocity_mask = [True, True, False]"
    by (simp add: velocity_mask_def dim_def numeral_2_eq_2)
  obtain prepared refined where rm: "refined_mesh lib s (solution_at s sol_arg) = (prepared, refined)"
    by (metis surj_pair)
  have rf: "refined = (if adaptive_refinement s
                 then execute_coarsening_and_refinement lib
                        (prepare_coarsening_and_refinement lib
                          (mark_cells lib s (estimated_error_per_cell lib s y)))
                 else refine_global lib 1
                        (prepare_coarsening_and_refinement lib
                          (mark_cells lib s (estimated_error_per_cell lib s y))))"
    using rm by (auto simp: refined_mesh_def Let_def assms(2))
  have T: "kelly_threshold s < max_kelly lib s y \<Longrightarrow>
      fst (solver_should_restart lib t step_number h sol_arg sol_dot_arg s)
      \<and> triangulation (snd (snd (snd (solver_should_restart lib t step_number h sol_arg sol_dot_arg s))))
          = refined"
    unfolding assms(2)
    by (simp add: solver_should_restart_triggered [OF assms(1) _ refl rm refl refl refl]
        triangulation_after_put triangulation_setup_dofs)
  have N: "\<not> kelly_threshold s < max_kelly lib s y \<Longrightarrow>
      solver_should_restart lib t step_number h sol_arg sol_dot_arg s
              = (False, y, solution_dot_at s sol_dot_arg,
                 s\<lparr>distributed_solution :=
                     assign (distributed_solution s) (distribute (constraints s) y)\<rparr>)"
    unfolding assms(2) by (rule solver_should_restart_not_triggered [OF assms(1)])
  have 1: "fst (solver_should_restart lib t step_number h sol_arg sol_dot_arg s)
           = (kelly_threshold s < max_kelly lib s y)"
    using T N by (cases "kelly_threshold s < max_kelly lib s y") simp_all
  have 2: "max_kelly lib s y =
           Max (insert 0 (abs ` (set (estimated_error_per_cell lib s y)
             \<union> (\<Union>e \<in> set (remote_estimates lib (triangulation s)
                   (assign (distributed_solution s) (distribute (constraints s) y))
                   [True, True, False]). set e))))"
    unfolding max_kelly_def mask by (rule global_max_is_Max)
  have 3: "estimated_error_per_cell lib s y =
           KellyErrorEstimator_estimate lib (triangulation s)
             (assign (distributed_solution s) (distribute (constraints s) y)) [True, True, False]"
    by (simp add: estimated_error_per_cell_def mask)
  have 5: "max_cells s < 0 \<Longrightarrow>
            mark_cells lib s (estimated_error_per_cell lib s y)
              = refine_and_coarsen_fixed_fraction lib (triangulation s)
                  (estimated_error_per_cell lib s y) (top_fraction s) (bottom_fraction s)"
    by (simp add: mark_cells_def)
  have 6: "\<not> max_cells s < 0 \<Longrightarrow>
            mark_cells lib s (estimated_error_per_cell lib s y)
              = refine_and_coarsen_fixed_number lib (triangulation s)
                  (estimated_error_per_cell lib s y) (top_fraction s) (bottom_fraction s)
                  (max_cells s)"
    by (simp add: mark_cells_def)
  from 1 2 3 T N 5 6 rf show ?thesis by blast
qed

lemma max_kelly_lib0:
  "constraints s = cm0 \<Longrightarrow> max_kelly lib0 s v = max (1 / 200) \<bar>val v 1\<bar>"
  by (simp add: max_kelly_def estimated_error_per_cell_def lib0_def
      Utilities_MPI_max_def linfty_norm_def assign_def distribute_def cm0_def max.commute)

lemma stokes1_fields:
  "use_space_adaptivity stokes1" "constraints stokes1 = cm0" "solution stokes1 = y0"
  "solution_dot stokes1 = y0" "kelly_threshold stokes1 = 1 / 100" "adaptive_refinement stokes1"
  "triangulation stokes1 = 0" "\<not> max_cells stokes1 < 0"
  "distributed_solution stokes1 = zero_vector [0, 1, 2]"
  "distributed_solution_dot stokes1 = zero_vector [0, 1, 2]"
  by (simp_all add: stokes1_def stokes0_def)

lemma trigger_lib0: "kelly_threshold stokes1 < max_kelly lib0 stokes1 y0"
  by (simp add: max_kelly_lib0 stokes1_fields) (simp add: y0_def)

lemma no_trigger_lib0: "\<not> kelly_threshold stokes0 < max_kelly lib0 stokes0 (solution stokes0)"
proof -
  have "constraints stokes0 = cm0" "kelly_threshold stokes0 = 1 / 100"
    "val (solution stokes0) 1 = 0"
    by (simp_all add: stokes0_def zero_vector_def)
  then show ?thesis by (simp add: max_kelly_lib0)
qed

theorem solver_should_restart_trigger_witness:
  "use_space_adaptivity stokes1
   \<and> kelly_threshold stokes1 < max_kelly lib0 stokes1 (solution_at stokes1 Member)
   \<and> fst (solver_should_restart lib0 0 1 1 Member Member stokes1)
   \<and> triangulation (snd (snd (snd (solver_should_restart lib0 0 1 1 Member Member stokes1)))) = 1
   \<and> \<not> max_cells stokes1 < 0
   \<and> mark_cells lib0 stokes1 (estimated_error_per_cell lib0 stokes1 (solution_at stokes1 Member))
       = refine_and_coarsen_fixed_number lib0 (triangulation stokes1)
           (estimated_error_per_cell lib0 stokes1 (solution_at stokes1 Member)) (top_fraction stokes1)
           (bottom_fraction stokes1) (max_cells stokes1)
   \<and> max_cells (stokes1\<lparr>max_cells := - 1\<rparr>) < 0
   \<and> mark_cells lib0 (stokes1\<lparr>max_cells := - 1\<rparr>)
         (estimated_error_per_cell lib0 (stokes1\<lparr>max_cells := - 1\<rparr>) y0)
       = refine_and_coarsen_fixed_fraction lib0 (triangulation (stokes1\<lparr>max_cells := - 1\<rparr>))
           (estimated_error_per_cell lib0 (stokes1\<lparr>max_cells := - 1\<rparr>) y0)
           (top_fraction (stokes1\<lparr>max_cells := - 1\<rparr>))
           (bottom_fraction (stokes1\<lparr>max_cells := - 1\<rparr>))
   \<and> use_space_adaptivity stokes0
   \<and> \<not> kelly_threshold stokes0 < max_kelly lib0 stokes0 (solution_at stokes0 Member)
   \<and> \<not> fst (solver_should_restart lib0 0 1 1 Member Member stokes0)
   \<and> triangulation (snd (snd (snd (solver_should_restart lib0 0 1 1 Member Member stokes0))))
       = triangulation stokes0
   \<and> fst (snd (solver_should_restart lib0 0 1 1 Member Member stokes0)) = solution stokes0"
proof -
  have u: "use_space_adaptivity stokes1" "use_space_adaptivity (stokes1\<lparr>max_cells := - 1\<rparr>)"
    "use_space_adaptivity stokes0"
    by (simp_all add: stokes1_def stokes0_def)
  have k: "kelly_threshold stokes1 < max_kelly lib0 stokes1 (solution_at stokes1 Member)"
    using trigger_lib0 by (simp add: solution_at_simps stokes1_fields)
  have nk: "\<not> kelly_threshold stokes0 < max_kelly lib0 stokes0 (solution_at stokes0 Member)"
    using no_trigger_lib0 by (simp add: solution_at_simps)
  have c: "\<not> max_cells stokes1 < 0" "max_cells (stokes1\<lparr>max_cells := - 1\<rparr>) < 0"
    by (simp_all add: stokes1_fields)
  note A = solver_should_restart_trigger [OF u(1) refl, of lib0 0 1 1 Member Member]
  note B = solver_should_restart_trigger [OF u(2), of y0 Member lib0 0 1 1 Member]
  note C = solver_should_restart_trigger [OF u(3) refl, of lib0 0 1 1 Member Member]
  from A k have 1: "fst (solver_should_restart lib0 0 1 1 Member Member stokes1)" by blast
  from A k have "triangulation (snd (snd (snd (solver_should_restart lib0 0 1 1 Member Member stokes1))))
      = (if adaptive_refinement stokes1
                 then execute_coarsening_and_refinement lib0
                        (prepare_coarsening_and_refinement lib0
                          (mark_cells lib0 stokes1 (estimated_error_per_cell lib0 stokes1 (solution_at stokes1 Member))))
                 else refine_global lib0 1
                        (prepare_coarsening_and_refinement lib0
                          (mark_cells lib0 stokes1 (estimated_error_per_cell lib0 stokes1 (solution_at stokes1 Member)))))"
    by blast
  then have 2:
    "triangulation (snd (snd (snd (solver_should_restart lib0 0 1 1 Member Member stokes1)))) = 1"
    by (simp add: stokes1_fields) (simp add: lib0_def mark_cells_def stokes1_fields)
  from A c have 3: "mark_cells lib0 stokes1 (estimated_error_per_cell lib0 stokes1 (solution_at stokes1 Member))
       = refine_and_coarsen_fixed_number lib0 (triangulation stokes1)
           (estimated_error_per_cell lib0 stokes1 (solution_at stokes1 Member)) (top_fraction stokes1)
           (bottom_fraction stokes1) (max_cells stokes1)" by blast
  have "y0 = solution_at (stokes1\<lparr>max_cells := - 1\<rparr>) Member"
    by (simp add: solution_at_simps stokes1_fields)
  from B [OF this] c have 4: "mark_cells lib0 (stokes1\<lparr>max_cells := - 1\<rparr>)
         (estimated_error_per_cell lib0 (stokes1\<lparr>max_cells := - 1\<rparr>) y0)
       = refine_and_coarsen_fixed_fraction lib0 (triangulation (stokes1\<lparr>max_cells := - 1\<rparr>))
           (estimated_error_per_cell lib0 (stokes1\<lparr>max_cells := - 1\<rparr>) y0)
           (top_fraction (stokes1\<lparr>max_cells := - 1\<rparr>))
           (bottom_fraction (stokes1\<lparr>max_cells := - 1\<rparr>))" by blast
  from C nk have 5: "\<not> fst (solver_should_restart lib0 0 1 1 Member Member stokes0)"
    by blast
  from C nk have R: "solver_should_restart lib0 0 1 1 Member Member stokes0
      = (False, solution_at stokes0 Member, solution_dot_at stokes0 Member,
         stokes0\<lparr>distributed_solution :=
             assign (distributed_solution stokes0)
               (distribute (constraints stokes0) (solution_at stokes0 Member))\<rparr>)"
    by blast
  have 6: "triangulation (snd (snd (snd (solver_should_restart lib0 0 1 1 Member Member stokes0))))
       = triangulation stokes0"
    "fst (snd (solver_should_restart lib0 0 1 1 Member Member stokes0)) = solution stokes0"
    unfolding R by (simp_all add: solution_at_simps)
  from u k 1 2 c 3 4 nk 5 6 show ?thesis by blast
qed

lemma val_assign: "val (assign a b) = val b"
  by (simp add: assign_def)

lemma refined_mesh_lib0: "refined_mesh lib0 stokes1 y0 = (0, 1)"
  by (simp add: refined_mesh_def mark_cells_def lib0_def stokes1_fields)

lemma setup_dofs_lib0:
  "constraints (setup_dofs lib0 False s) = cm0"
  "solution (setup_dofs lib0 False s) = zero_vector [0, 1, 2]"
  "solution_dot (setup_dofs lib0 False s) = zero_vector [0, 1, 2]"
  by (simp_all add: constraints_setup_dofs constraints_at_def setup_dofs_vectors
      lib0_def clear_def cm0_def)

lemma interpolate_lib0:
  "val (SolutionTransfer_interpolate lib0 old new snap out) =
     (val snap)(1 := (val snap 0 + val snap 1) / 2)"
  by (simp add: lib0_def)

text \<open>The call the program makes, on the object whose member vectors hold \<open>y0\<close>.\<close>

lemma restart_lib0:
  "val (fst (snd (solver_should_restart lib0 0 1 1 Member Member stokes1))) =
     (\<lambda>j. if j = 0 then 5 else if j = 1 then 1 / 2 else 0)"
  "val (fst (snd (snd (solver_should_restart lib0 0 1 1 Member Member stokes1)))) =
     (\<lambda>j. if j = 1 then 1 / 2 else 0)"
  "solution (snd (snd (snd (solver_should_restart lib0 0 1 1 Member Member stokes1)))) =
     fst (snd (solver_should_restart lib0 0 1 1 Member Member stokes1))"
  "locally_owned_elements (fst (snd (solver_should_restart lib0 0 1 1 Member Member stokes1)))
     = [0, 1, 2]"
proof -
  have k: "kelly_threshold stokes1 < max_kelly lib0 stokes1 (solution_at stokes1 Member)"
    using trigger_lib0 by (simp add: solution_at_simps stokes1_fields)
  have rm: "refined_mesh lib0 stokes1 (solution_at stokes1 Member) = (0, 1)"
    using refined_mesh_lib0 by (simp add: solution_at_simps stokes1_fields)
  note R = solver_should_restart_triggered [OF stokes1_fields(1) k refl rm refl refl refl,
      of 0 1 1 Member]
  show "val (fst (snd (solver_should_restart lib0 0 1 1 Member Member stokes1))) =
     (\<lambda>j. if j = 0 then 5 else if j = 1 then 1 / 2 else 0)"
    unfolding R
    by (auto simp: fun_eq_iff solution_at_simps setup_dofs_lib0 distribute_def cm0_def
        line_value_def val_assign interpolate_lib0 stokes1_fields y0_def)
  show "val (fst (snd (snd (solver_should_restart lib0 0 1 1 Member Member stokes1)))) =
     (\<lambda>j. if j = 1 then 1 / 2 else 0)"
    unfolding R
    by (auto simp: fun_eq_iff solution_at_simps setup_dofs_lib0 val_assign interpolate_lib0
        stokes1_fields y0_def)
  show "solution (snd (snd (snd (solver_should_restart lib0 0 1 1 Member Member stokes1)))) =
     fst (snd (solver_should_restart lib0 0 1 1 Member Member stokes1))"
    unfolding R by simp
  show "locally_owned_elements (fst (snd (solver_should_restart lib0 0 1 1 Member Member stokes1)))
     = [0, 1, 2]"
    unfolding R
    by (simp add: solution_at_simps setup_dofs_lib0 distribute_def assign_def zero_vector_def)
qed

lemma spec_lib0:
  "val (fst (spec_mesh_transfer lib0 Member Member stokes1)) 1 = 3"
  "val (snd (spec_mesh_transfer lib0 Member Member stokes1)) 0 = 5"
  unfolding spec_mesh_transfer_def Let_def
  by (simp_all add: solution_at_simps setup_dofs_lib0 distribute_def cm0_def line_value_def
      val_assign interpolate_lib0 stokes1_fields y0_def)

text \<open>
  Claim C6, as the code has it. When the adaptation triggers, the snapshots hold the
  entries of \<open>y\<close> and \<open>y_dot\<close> as passed in (no constraints applied); the mesh is
  prepared and refined, the constraints are rebuilt on the refined mesh, the snapshots
  are interpolated, and the rebuilt constraints are applied to the new \<open>y\<close> only: the
  new \<open>y_dot\<close> is the interpolated snapshot. The transfer writes to what the reference
  holds after \<^verbatim>\<open>setup_dofs\<close>: for the member vectors, as the program passes them,
  that is the re-initialised vector on the new index set, and the members hold the new
  vectors on return.
\<close>

theorem mesh_transfer:
  assumes "use_space_adaptivity s"
    and "y = solution_at s sol_arg" and "yd = solution_dot_at s sol_dot_arg"
    and "kelly_threshold s < max_kelly lib s y"
    and "refined_mesh lib s y = (prepared, refined)"
    and "d = assign (distributed_solution s) (distribute (constraints s) y)"
    and "snapshot (s\<lparr>distributed_solution := d\<rparr>) y yd = (snap, snap_dot)"
    and "s1 = setup_dofs lib False (s\<lparr>distributed_solution := d, triangulation := refined\<rparr>)"
    and "out = solution_at s1 sol_arg" and "out_dot = solution_dot_at s1 sol_dot_arg"
    and "solver_should_restart lib t step_number h sol_arg sol_dot_arg s = (r, y', yd', s')"
  shows "r \<and> val snap = val y \<and> val snap_dot = val yd
       \<and> y' = distribute (constraints s1)
                 (assign out (SolutionTransfer_interpolate lib prepared refined snap out))
       \<and> yd' = assign out_dot (SolutionTransfer_interpolate lib prepared refined snap_dot out_dot)
       \<and> triangulation s' = refined
       \<and> constraints s' = constraints s1
       \<and> constraints s1 = constraints_at lib (dirichlet_bcs_time s) (s\<lparr>triangulation := refined\<rparr>)
       \<and> (sol_arg = Member \<longrightarrow>
            out = zero_vector (locally_owned_dofs lib refined) \<and> solution s' = y')
       \<and> (sol_dot_arg = Member \<longrightarrow>
            out_dot = zero_vector (locally_owned_dofs lib refined) \<and> solution_dot s' = yd')
       \<and> (\<forall>v. sol_arg = Outside v \<longrightarrow> out = v)
       \<and> (\<forall>v. sol_dot_arg = Outside v \<longrightarrow> out_dot = v)"
proof -
  have snap: "snap = assign d y" "snap_dot = assign (distributed_solution_dot s) yd"
    using assms(7) by (simp_all add: snapshot_def Let_def)
  note R = solver_should_restart_triggered [OF assms(1) assms(4) [unfolded assms(2)]
      assms(6) [unfolded assms(2)] assms(5) [unfolded assms(2)] assms(8) refl refl,
      of t step_number h sol_dot_arg]
  from R assms(11) have r: "r"
    and y': "y' = distribute (constraints s1)
                (assign (solution_at s1 sol_arg)
                   (SolutionTransfer_interpolate lib prepared refined
                      (assign d (solution_at s sol_arg)) (solution_at s1 sol_arg)))"
    and yd': "yd' = assign (solution_dot_at s1 sol_dot_arg)
                 (SolutionTransfer_interpolate lib prepared refined
                    (assign (distributed_solution_dot s) (solution_dot_at s sol_dot_arg))
                    (solution_dot_at s1 sol_dot_arg))"
    and s': "s' = (case sol_arg of Member \<Rightarrow> (\<lambda>s. s\<lparr>solution := y'\<rparr>) | Outside _ \<Rightarrow> (\<lambda>s. s))
        ((case sol_dot_arg of Member \<Rightarrow> (\<lambda>s. s\<lparr>solution_dot := yd'\<rparr>) | Outside _ \<Rightarrow> (\<lambda>s. s)) s1)"
    by auto
  have 1: "val snap = val y" "val snap_dot = val yd"
    by (simp_all add: snap val_assign)
  have 2: "y' = distribute (constraints s1)
                 (assign out (SolutionTransfer_interpolate lib prepared refined snap out))"
    "yd' = assign out_dot (SolutionTransfer_interpolate lib prepared refined snap_dot out_dot)"
    using y' yd' by (simp_all add: snap assms(2,3,9,10))
  have 3: "triangulation s' = refined" "constraints s' = constraints s1"
    unfolding s' triangulation_after_put
    by (simp_all add: assms(8) triangulation_setup_dofs)
  have 4: "constraints s1 = constraints_at lib (dirichlet_bcs_time s) (s\<lparr>triangulation := refined\<rparr>)"
    by (simp add: assms(8) constraints_setup_dofs constraints_at_def)
  have 5: "sol_arg = Member \<Longrightarrow>
            out = zero_vector (locally_owned_dofs lib refined) \<and> solution s' = y'"
    unfolding s' by (cases sol_dot_arg) (simp_all add: assms(8,9) solution_at_simps setup_dofs_vectors)
  have 6: "sol_dot_arg = Member \<Longrightarrow>
            out_dot = zero_vector (locally_owned_dofs lib refined) \<and> solution_dot s' = yd'"
    unfolding s' by (cases sol_arg) (simp_all add: assms(8,10) solution_at_simps setup_dofs_vectors)
  have 7: "sol_arg = Outside v \<Longrightarrow> out = v" "sol_dot_arg = Outside w \<Longrightarrow> out_dot = w" for v w
    by (simp_all add: assms(9,10) solution_at_simps)
  from r 1 2 3 4 5 6 7 show ?thesis by blast
qed

theorem mesh_transfer_witness:
  "use_space_adaptivity stokes1
   \<and> kelly_threshold stokes1 < max_kelly lib0 stokes1 (solution_at stokes1 Member)
   \<and> refined_mesh lib0 stokes1 (solution_at stokes1 Member) = (0, 1)
   \<and> fst (solver_should_restart lib0 0 1 1 Member Member stokes1)
   \<and> val (fst (snapshot (stokes1\<lparr>distributed_solution :=
              assign (distributed_solution stokes1)
                (distribute (constraints stokes1) (solution_at stokes1 Member))\<rparr>)
            (solution_at stokes1 Member) (solution_dot_at stokes1 Member))) = val y0
   \<and> triangulation (snd (snd (snd (solver_should_restart lib0 0 1 1 Member Member stokes1)))) = 1
   \<and> solution (snd (snd (snd (solver_should_restart lib0 0 1 1 Member Member stokes1))))
       = fst (snd (solver_should_restart lib0 0 1 1 Member Member stokes1))
   \<and> solution_dot (snd (snd (snd (solver_should_restart lib0 0 1 1 Member Member stokes1))))
       = fst (snd (snd (solver_should_restart lib0 0 1 1 Member Member stokes1)))
   \<and> solution_at
        (setup_dofs lib0 False
          (stokes1\<lparr>distributed_solution :=
              assign (distributed_solution stokes1)
                (distribute (constraints stokes1) (solution_at stokes1 Member)),
            triangulation := 1\<rparr>)) Member = zero_vector (locally_owned_dofs lib0 1)"
proof -
  have k: "kelly_threshold stokes1 < max_kelly lib0 stokes1 (solution_at stokes1 Member)"
    using trigger_lib0 by (simp add: solution_at_simps stokes1_fields)
  have rm: "refined_mesh lib0 stokes1 (solution_at stokes1 Member) = (0, 1)"
    using refined_mesh_lib0 by (simp add: solution_at_simps stokes1_fields)
  obtain r y' yd' s' where
    R: "solver_should_restart lib0 0 1 1 Member Member stokes1 = (r, y', yd', s')"
    by (metis prod_cases4)
  obtain snap snap_dot where
    S: "snapshot (stokes1\<lparr>distributed_solution :=
              assign (distributed_solution stokes1)
                (distribute (constraints stokes1) (solution_at stokes1 Member))\<rparr>)
            (solution_at stokes1 Member) (solution_dot_at stokes1 Member) = (snap, snap_dot)"
    by (metis surj_pair)
  have y: "solution_at stokes1 Member = y0"
    by (simp add: solution_at_simps stokes1_fields)
  from mesh_transfer [OF stokes1_fields(1) refl refl k rm refl S refl refl refl R]
    stokes1_fields(1) k rm
  show ?thesis
    unfolding R S by (simp add: y)
qed


text \<open>
  Claim C6 as stated fails on the call the program makes, on the small discretization:
  the code interpolates the unconstrained snapshot (entry 1 of the new \<open>y\<close> is 1/2, not
  3) and leaves the new \<open>y_dot\<close> without the constraints (entry 0 is 0, not the boundary
  value 5).
\<close>

theorem mesh_transfer_counterexample:
  "val (fst (snd (solver_should_restart lib0 0 1 1 Member Member stokes1))) 1 = 1 / 2
   \<and> val (fst (spec_mesh_transfer lib0 Member Member stokes1)) 1 = 3
   \<and> val (fst (snd (snd (solver_should_restart lib0 0 1 1 Member Member stokes1)))) 0 = 0
   \<and> val (snd (spec_mesh_transfer lib0 Member Member stokes1)) 0 = 5
   \<and> (fst (snd (solver_should_restart lib0 0 1 1 Member Member stokes1)),
       fst (snd (snd (solver_should_restart lib0 0 1 1 Member Member stokes1))))
      \<noteq> spec_mesh_transfer lib0 Member Member stokes1"
proof -
  have 1: "val (fst (snd (solver_should_restart lib0 0 1 1 Member Member stokes1))) 1 = 1 / 2"
    unfolding restart_lib0(1) by simp
  have 3: "val (fst (snd (snd (solver_should_restart lib0 0 1 1 Member Member stokes1)))) 0 = 0"
    unfolding restart_lib0(2) by simp
  note 2 = spec_lib0(1) and 4 = spec_lib0(2)
  from 1 2 have "fst (snd (solver_should_restart lib0 0 1 1 Member Member stokes1))
      \<noteq> fst (spec_mesh_transfer lib0 Member Member stokes1)"
    by auto
  then have 5: "(fst (snd (solver_should_restart lib0 0 1 1 Member Member stokes1)),
       fst (snd (snd (solver_should_restart lib0 0 1 1 Member Member stokes1))))
      \<noteq> spec_mesh_transfer lib0 Member Member stokes1"
    by (metis fst_conv)
  from 1 2 3 4 5 show ?thesis by blast
qed



section \<open>Jacobian and preconditioner setup\<close>

subsection \<open>The local matrices\<close>

lemma fold_pair_j:
  "fold (\<lambda>j (cm, cp). (add_entry cm i j (f j), add_entry cp i j (g j))) js (M, P) =
     (fold (\<lambda>j M. add_entry M i j (f j)) js M, fold (\<lambda>j P. add_entry P i j (g j)) js P)"
  by (induction js arbitrary: M P) auto

lemma fold_pair_i:
  "fold (\<lambda>i. fold (\<lambda>j (cm, cp). (add_entry cm i j (f i j), add_entry cp i j (g i j))) js) is (M, P) =
     (fold (\<lambda>i. fold (\<lambda>j M. add_entry M i j (f i j)) js) is M,
      fold (\<lambda>i. fold (\<lambda>j P. add_entry P i j (g i j)) js) is P)"
  by (induction "is" arbitrary: M P) (auto simp: fold_pair_j)

lemma fold_pair_q:
  "fold (\<lambda>q. fold (\<lambda>i. fold (\<lambda>j (cm, cp).
       (add_entry cm i j (f q i j), add_entry cp i j (g q i j))) js) is) qs (M, P) =
     (fold (\<lambda>q. fold (\<lambda>i. fold (\<lambda>j M. add_entry M i j (f q i j)) js) is) qs M,
      fold (\<lambda>q. fold (\<lambda>i. fold (\<lambda>j P. add_entry P i j (g q i j)) js) is) qs P)"
  by (induction qs arbitrary: M P) (auto simp: fold_pair_i)

lemma fold_add_j:
  "distinct js \<Longrightarrow>
     fold (\<lambda>j M. add_entry M i j (f j)) js M i' j' =
       M i' j' + (if i' = i \<and> j' \<in> set js then f j' else 0)"
  by (induction js arbitrary: M) (auto simp: add_entry_def)

lemma fold_add_i:
  "distinct js \<Longrightarrow> distinct is \<Longrightarrow>
     fold (\<lambda>i. fold (\<lambda>j M. add_entry M i j (f i j)) js) is M i' j' =
       M i' j' + (if i' \<in> set is \<and> j' \<in> set js then f i' j' else 0)"
  by (induction "is" arbitrary: M) (auto simp: fold_add_j)

lemma fold_add_q:
  "distinct js \<Longrightarrow> distinct is \<Longrightarrow>
     fold (\<lambda>q. fold (\<lambda>i. fold (\<lambda>j M. add_entry M i j (f q i j)) js) is) qs M i' j' =
       M i' j' + (if i' \<in> set is \<and> j' \<in> set js then sum_list (map (\<lambda>q. f q i' j') qs) else 0)"
  by (induction qs arbitrary: M) (auto simp: fold_add_i)

lemma assemble_cell_entries:
  "fst (assemble_cell lib alpha visc c) i j =
     (if i < dofs_per_cell lib \<and> j < dofs_per_cell lib
      then sum_list (map (\<lambda>q. cell_matrix_term alpha visc c q i j) [0..<n_q_points lib]) else 0)"
  "snd (assemble_cell lib alpha visc c) i j =
     (if i < dofs_per_cell lib \<and> j < dofs_per_cell lib
      then sum_list (map (\<lambda>q. cell_prec_term alpha visc c q i j) [0..<n_q_points lib]) else 0)"
  by (simp_all add: assemble_cell_def fold_pair_q fold_add_q)

lemma dot_scale1: "dot (scale1 a x) y = a * dot x y"
  unfolding dot_def scale1_def
  by (induction x y rule: list_induct2') (simp_all add: algebra_simps)

lemma scalar_product_scale2: "scalar_product (scale2 a A) B = a * scalar_product A B"
  unfolding scalar_product_def scale2_def
  by (induction A B rule: list_induct2') (simp_all add: algebra_simps dot_scale1)

lemma cell_matrix_term_formula:
  "cell_matrix_term alpha visc c q i j =
     (alpha * dot (u_value c i q) (u_value c j q)
      + visc * scalar_product (u_symmetric_gradient c i q) (u_symmetric_gradient c j q)
      - u_divergence c i q * p_value c j q
      - p_value c i q * u_divergence c j q) * JxW c q"
  by (simp add: cell_matrix_term_def dot_scale1 scalar_product_scale2)

lemma cell_prec_term_formula:
  "cell_prec_term alpha visc c q i j =
     ((1 / alpha) * dot (u_value c i q) (u_value c j q)
      + visc * scalar_product (u_gradient c i q) (u_gradient c j q)
      + (1 / visc) * (p_value c i q * p_value c j q)) * JxW c q"
  by (simp add: cell_prec_term_def dot_scale1)

subsection \<open>The global matrices and the operators\<close>

lemma assemble_cells_split:
  "assemble_cells lib cm alpha visc cells (J, P) =
     (scatter_cells lib cm (\<lambda>c. fst (assemble_cell lib alpha visc c)) cells J,
      scatter_cells lib cm (\<lambda>c. snd (assemble_cell lib alpha visc c)) cells P)"
  unfolding assemble_cells_def scatter_cells_def
  by (induction cells arbitrary: J P) (auto simp: split_beta)

lemma assemble_matrices_unfold:
  "assemble_matrices lib t sol sol_dot alpha s =
     (let cm = constraints_at lib t s;
          JP = assemble_cells lib cm alpha (mu s) (active_cells lib (triangulation s))
                 (zero_matrix, jacobian_preconditioner_matrix s)
      in s\<lparr>jacobian_matrix := set_constrained_diagonal cm (locally_owned_elements sol) (fst JP),
            dirichlet_bcs_time := t, exact_solution_time := t,
            constraints := cm,
            distributed_solution := assign (distributed_solution s) (distribute cm sol),
            distributed_solution_dot := assign (distributed_solution_dot s) sol_dot,
            jacobian_preconditioner_matrix := snd JP\<rparr>)"
  unfolding assemble_matrices_def constraints_at_def rebuild_constraints_def
  by (simp add: Let_def split_beta)

lemma assemble_matrices_fields:
  "jacobian_matrix (assemble_matrices lib t sol sol_dot alpha s) =
     set_constrained_diagonal (constraints_at lib t s) (locally_owned_elements sol)
       (scatter_cells lib (constraints_at lib t s) (\<lambda>c. fst (assemble_cell lib alpha (mu s) c))
          (active_cells lib (triangulation s)) zero_matrix)"
  "jacobian_preconditioner_matrix (assemble_matrices lib t sol sol_dot alpha s) =
     scatter_cells lib (constraints_at lib t s) (\<lambda>c. snd (assemble_cell lib alpha (mu s) c))
       (active_cells lib (triangulation s)) (jacobian_preconditioner_matrix s)"
  "constraints (assemble_matrices lib t sol sol_dot alpha s) = constraints_at lib t s"
  "mu (assemble_matrices lib t sol sol_dot alpha s) = mu s"
  "triangulation (assemble_matrices lib t sol sol_dot alpha s) = triangulation s"
  "dofs_per_block (assemble_matrices lib t sol sol_dot alpha s) = dofs_per_block s"
  unfolding assemble_matrices_unfold Let_def by (simp_all add: assemble_cells_split)

lemma operators_setup_fields:
  "jacobian_matrix (operators_setup lib s) = jacobian_matrix s"
  "jacobian_preconditioner_matrix (operators_setup lib s) = jacobian_preconditioner_matrix s"
  "constraints (operators_setup lib s) = constraints s"
  "mu (operators_setup lib s) = mu s"
  "triangulation (operators_setup lib s) = triangulation s"
  "dofs_per_block (operators_setup lib s) = dofs_per_block s"
  unfolding operators_setup_def Let_def by simp_all

lemma set_matrix_entry_apply:
  "set_matrix_entry M a b x i j = (if i = a \<and> j = b then x else M i j)"
  by (simp add: set_matrix_entry_def)

lemma set_constrained_diagonal_entry:
  "set_constrained_diagonal cm ids M i j =
     (if i = j \<and> j \<in> set ids \<and> is_constrained cm j then 1 else M i j)"
proof (induction ids arbitrary: M)
  case Nil
  then show ?case by (simp add: set_constrained_diagonal_def)
next
  case (Cons a ids)
  have "set_constrained_diagonal cm (a # ids) M =
    set_constrained_diagonal cm ids (if is_constrained cm a then set_matrix_entry M a a 1 else M)"
    by (simp add: set_constrained_diagonal_def)
  then show ?case
    by (auto simp: Cons.IH set_matrix_entry_apply)
qed

lemma operators_setup_ops:
  "jacobian_op (operators_setup lib s) =
     [[linear_operator (block (dofs_per_block s) (jacobian_matrix s) 0 0),
       linear_operator (block (dofs_per_block s) (jacobian_matrix s) 0 1)],
      [linear_operator (block (dofs_per_block s) (jacobian_matrix s) 1 0),
       scaled 0 (linear_operator (block (dofs_per_block s) (jacobian_matrix s) 1 1))]]"
  "jacobian_preconditioner_op (operators_setup lib s) =
     [[inverse_operator (linear_operator (block (dofs_per_block s) (jacobian_matrix s) 0 0)) solver_CG
         (PreconditionAMG (block (dofs_per_block s) (jacobian_preconditioner_matrix s) 0 0)
            (Amg_data (extract_constant_modes lib (triangulation s)))),
       null_operator (linear_operator (block (dofs_per_block s) (jacobian_matrix s) 0 1))],
      [composed
         (composed
            (inverse_operator (linear_operator (block (dofs_per_block s) (jacobian_preconditioner_matrix s) 1 1))
               solver_CG (PreconditionJacobi (block (dofs_per_block s) (jacobian_preconditioner_matrix s) 1 1)))
            (linear_operator (block (dofs_per_block s) (jacobian_matrix s) 1 0)))
         (inverse_operator (linear_operator (block (dofs_per_block s) (jacobian_matrix s) 0 0)) solver_CG
            (PreconditionAMG (block (dofs_per_block s) (jacobian_preconditioner_matrix s) 0 0)
               (Amg_data (extract_constant_modes lib (triangulation s))))),
       scaled (- 1)
         (inverse_operator (linear_operator (block (dofs_per_block s) (jacobian_preconditioner_matrix s) 1 1))
            solver_CG (PreconditionJacobi (block (dofs_per_block s) (jacobian_preconditioner_matrix s) 1 1)))]]"
  unfolding operators_setup_def Let_def by simp_all

lemma setup_jacobian_fields:
  "jacobian_matrix (snd (setup_jacobian lib t sol sol_dot unused alpha s)) =
     set_constrained_diagonal (constraints_at lib t s) (locally_owned_elements sol)
       (scatter_cells lib (constraints_at lib t s) (\<lambda>c. fst (assemble_cell lib alpha (mu s) c))
          (active_cells lib (triangulation s)) zero_matrix)"
  "jacobian_preconditioner_matrix (snd (setup_jacobian lib t sol sol_dot unused alpha s)) =
     scatter_cells lib (constraints_at lib t s) (\<lambda>c. snd (assemble_cell lib alpha (mu s) c))
       (active_cells lib (triangulation s)) (jacobian_preconditioner_matrix s)"
  "constraints (snd (setup_jacobian lib t sol sol_dot unused alpha s)) = constraints_at lib t s"
  "mu (snd (setup_jacobian lib t sol sol_dot unused alpha s)) = mu s"
  "triangulation (snd (setup_jacobian lib t sol sol_dot unused alpha s)) = triangulation s"
  "dofs_per_block (snd (setup_jacobian lib t sol sol_dot unused alpha s)) = dofs_per_block s"
  by (simp_all add: setup_jacobian_def assemble_jacobian_matrix_def operators_setup_fields
      assemble_matrices_fields)

lemma constraints_at_cong:
  "triangulation s = triangulation s' \<Longrightarrow> constraints_at lib t s = constraints_at lib t s'"
  by (simp add: constraints_at_def)

text \<open>The Jacobian after a second setup with the same arguments is the one after the first.\<close>

lemma jacobian_matrix_setup_twice:
  "jacobian_matrix (snd (setup_jacobian lib t sol sol_dot unused alpha
       (snd (setup_jacobian lib t sol sol_dot unused alpha s)))) =
   jacobian_matrix (snd (setup_jacobian lib t sol sol_dot unused alpha s))"
  by (simp add: setup_jacobian_fields
      constraints_at_cong [of "snd (setup_jacobian lib t sol sol_dot unused alpha s)" s])

text \<open>The preconditioner matrix after a setup is what it held before plus the scatter.\<close>

lemma preconditioner_matrix_setup_twice:
  "jacobian_preconditioner_matrix (snd (setup_jacobian lib t sol sol_dot unused alpha
       (snd (setup_jacobian lib t sol sol_dot unused alpha s)))) =
   scatter_cells lib (constraints_at lib t s) (\<lambda>c. snd (assemble_cell lib alpha (mu s) c))
     (active_cells lib (triangulation s))
     (jacobian_preconditioner_matrix (snd (setup_jacobian lib t sol sol_dot unused alpha s)))"
  by (simp add: setup_jacobian_fields
      constraints_at_cong [of "snd (setup_jacobian lib t sol sol_dot unused alpha s)" s])

lemma block_el_block:
  "block_el (block dpb M r c) i j =
     (if i < block_size dpb r \<and> j < block_size dpb c
      then M (block_start dpb r + i) (block_start dpb c + j) else 0)"
  by (simp add: block_def)

lemma setup_jacobian_ops:
  assumes "s' = snd (setup_jacobian lib t src_yy src_yp unused alpha s)"
  shows "jacobian_op s' =
     [[linear_operator (block (dofs_per_block s') (jacobian_matrix s') 0 0),
       linear_operator (block (dofs_per_block s') (jacobian_matrix s') 0 1)],
      [linear_operator (block (dofs_per_block s') (jacobian_matrix s') 1 0),
       scaled 0 (linear_operator (block (dofs_per_block s') (jacobian_matrix s') 1 1))]]"
  "jacobian_preconditioner_op s' =
     [[inverse_operator (linear_operator (block (dofs_per_block s') (jacobian_matrix s') 0 0)) solver_CG
         (PreconditionAMG (block (dofs_per_block s') (jacobian_preconditioner_matrix s') 0 0)
            (Amg_data (extract_constant_modes lib (triangulation s')))),
       null_operator (linear_operator (block (dofs_per_block s') (jacobian_matrix s') 0 1))],
      [composed
         (composed
            (inverse_operator (linear_operator (block (dofs_per_block s') (jacobian_preconditioner_matrix s') 1 1))
               solver_CG (PreconditionJacobi (block (dofs_per_block s') (jacobian_preconditioner_matrix s') 1 1)))
            (linear_operator (block (dofs_per_block s') (jacobian_matrix s') 1 0)))
         (inverse_operator (linear_operator (block (dofs_per_block s') (jacobian_matrix s') 0 0)) solver_CG
            (PreconditionAMG (block (dofs_per_block s') (jacobian_preconditioner_matrix s') 0 0)
               (Amg_data (extract_constant_modes lib (triangulation s'))))),
       scaled (- 1)
         (inverse_operator (linear_operator (block (dofs_per_block s') (jacobian_preconditioner_matrix s') 1 1))
            solver_CG (PreconditionJacobi (block (dofs_per_block s') (jacobian_preconditioner_matrix s') 1 1)))]]"
  "Mp_preconditioner s' =
     Some (PreconditionJacobi (block (dofs_per_block s') (jacobian_preconditioner_matrix s') 1 1))"
  "Amg_preconditioner s' =
     Some (PreconditionAMG (block (dofs_per_block s') (jacobian_preconditioner_matrix s') 0 0)
            (Amg_data (extract_constant_modes lib (triangulation s'))))"
  unfolding assms setup_jacobian_def assemble_jacobian_matrix_def snd_conv
    operators_setup_ops operators_setup_fields
  by (simp_all add: operators_setup_def Let_def)

subsection \<open>The setup on the small discretization\<close>

lemma add_entry_apply:
  "add_entry M a b x i j = (if i = a \<and> j = b then M i j + x else M i j)"
  by (simp add: add_entry_def)

lemma upt_0_3: "[0..<3] = [0, Suc 0, 2]"
proof -
  have "[0..<3] = [0..<Suc (Suc (Suc 0))]" by (simp add: numeral_3_eq_3)
  also have "\<dots> = [0, Suc 0, Suc (Suc 0)]" by (simp add: upt_rec)
  also have "\<dots> = [0, Suc 0, 2]" by (simp add: numeral_2_eq_2)
  finally show ?thesis .
qed

lemma cell0_fields: "is_locally_owned cell0" "get_dof_indices cell0 = [0, 1, 2]"
  by (simp_all add: cell0_def)

lemma scatter_cells_lib0:
  "scatter_cells lib0 cm0 L [cell0] M (Suc 0) (Suc 0) = M (Suc 0) (Suc 0) + L cell0 (Suc 0) (Suc 0)"
  "scatter_cells lib0 cm0 L [cell0] M 2 2 = M 2 2 + L cell0 2 2"
  by (simp_all add: scatter_cells_def lib0_def cell0_fields scatter_matrix_def
      is_constrained_cm0 add_entry_apply upt_0_3)
    (simp add: numeral_2_eq_2)

lemma assemble_cell_lib0:
  "alpha \<noteq> 0 \<Longrightarrow> fst (assemble_cell lib0 alpha 1 cell0) (Suc 0) (Suc 0) = alpha"
  "alpha \<noteq> 0 \<Longrightarrow> snd (assemble_cell lib0 alpha 1 cell0) (Suc 0) (Suc 0) = 1 / alpha"
  "snd (assemble_cell lib0 alpha 1 cell0) 2 2 = 1"
  by (simp_all add: assemble_cell_entries cell_matrix_term_formula cell_prec_term_formula
      lib0_def cell0_def dot_def scalar_product_def)

lemma stokes0_fields:
  "mu stokes0 = 1" "triangulation stokes0 = 0" "dofs_per_block stokes0 = [2, 1]"
  "jacobian_preconditioner_matrix stokes0 = zero_matrix"
  by (simp_all add: stokes0_def)

lemma active_cells_lib0: "active_cells lib0 m = [cell0]"
  by (simp add: lib0_def)

lemma first_setup_lib0:
  "jacobian_matrix (snd (setup_jacobian lib0 0 y0 y0 y0 2 stokes0)) (Suc 0) (Suc 0) = 2"
  "jacobian_preconditioner_matrix (snd (setup_jacobian lib0 0 y0 y0 y0 2 stokes0)) (Suc 0) (Suc 0) = 1 / 2"
  "jacobian_preconditioner_matrix (snd (setup_jacobian lib0 0 y0 y0 y0 2 stokes0)) 2 2 = 1"
  by (simp_all add: setup_jacobian_fields constraints_at_lib0 stokes0_fields active_cells_lib0
      scatter_cells_lib0 assemble_cell_lib0 set_constrained_diagonal_entry is_constrained_cm0
      zero_matrix_def)

lemma second_setup_lib0:
  "jacobian_preconditioner_matrix (snd (setup_jacobian lib0 0 y0 y0 y0 2
     (snd (setup_jacobian lib0 0 y0 y0 y0 2 stokes0)))) (Suc 0) (Suc 0) = 1"
  "jacobian_preconditioner_matrix (snd (setup_jacobian lib0 0 y0 y0 y0 2
     (snd (setup_jacobian lib0 0 y0 y0 y0 2 stokes0)))) 2 2 = 2"
  by (simp_all add: preconditioner_matrix_setup_twice constraints_at_lib0 stokes0_fields
      active_cells_lib0 scatter_cells_lib0 assemble_cell_lib0 first_setup_lib0)

lemma first_setup_lib0_fields:
  "dofs_per_block (snd (setup_jacobian lib0 0 y0 y0 y0 2 stokes0)) = [2, 1]"
  "dofs_per_block (snd (setup_jacobian lib0 0 y0 y0 y0 2
     (snd (setup_jacobian lib0 0 y0 y0 y0 2 stokes0)))) = [2, 1]"
  by (simp_all add: setup_jacobian_fields stokes0_fields)

lemma block_21:
  "block_el (block [2, Suc 0] M 0 0) (Suc 0) (Suc 0) = M (Suc 0) (Suc 0)"
  "block_el (block [2, Suc 0] M (Suc 0) (Suc 0)) 0 0 = M 2 2"
  by (simp_all add: block_el_block block_size_def block_start_def)

subsection \<open>The composed operators\<close>

text \<open>
  Claim C7, as the code has it. After a setup the preconditioner is the lower triangular
  block operator \<open>[[A_inv, 0], [Schur_inv B A_inv, - Schur_inv]]\<close> and the Jacobian
  operator is \<open>[[A, Bt], [B, 0]]\<close>, where \<open>A\<close>, \<open>Bt\<close>, \<open>B\<close> are blocks of the Jacobian
  matrix, \<open>A_inv\<close> is an inner conjugate gradient solve with \<open>A\<close> (the velocity block of
  the Jacobian matrix), preconditioned by the multigrid built from the velocity block of
  the preconditioner matrix, and \<open>Schur_inv\<close> is an inner solve with the pressure block of
  the preconditioner matrix, Jacobi-preconditioned from the same block. The upper right
  block and the pressure-pressure block of the Jacobian operator send every vector to
  zero.
\<close>

theorem operators_after_setup:
  assumes "s' = snd (setup_jacobian lib t src_yy src_yp unused alpha s)"
    and "J = jacobian_matrix s'" and "P = jacobian_preconditioner_matrix s'"
    and "dpb = dofs_per_block s'"
    and "A = linear_operator (block dpb J 0 0)"
    and "Bt = linear_operator (block dpb J 0 1)"
    and "B = linear_operator (block dpb J 1 0)"
    and "ZeroP = scaled 0 (linear_operator (block dpb J 1 1))"
    and "A_inv = inverse_operator A solver_CG
                   (PreconditionAMG (block dpb P 0 0)
                      (Amg_data (extract_constant_modes lib (triangulation s'))))"
    and "Schur_inv = inverse_operator (linear_operator (block dpb P 1 1)) solver_CG
                       (PreconditionJacobi (block dpb P 1 1))"
  shows "jacobian_preconditioner_op s' =
           [[A_inv, null_operator Bt], [composed (composed Schur_inv B) A_inv, scaled (- 1) Schur_inv]]
       \<and> jacobian_op s' = [[A, Bt], [B, ZeroP]]
       \<and> vmult inner (null_operator Bt) x = (\<lambda>_. 0)
       \<and> vmult inner ZeroP x = (\<lambda>_. 0)
       \<and> vmult inner (composed (composed Schur_inv B) A_inv) x
           = vmult inner Schur_inv (vmult inner B (vmult inner A_inv x))
       \<and> vmult inner (scaled (- 1) Schur_inv) x = (\<lambda>i. - vmult inner Schur_inv x i)"
  using setup_jacobian_ops(1,2) [OF assms(1)] assms(2-)
  by simp

theorem operators_after_setup_witness:
  "jacobian_op (snd (setup_jacobian lib0 0 y0 y0 y0 2 stokes0)) ! 1 ! 1 =
     scaled 0 (linear_operator (block (dofs_per_block (snd (setup_jacobian lib0 0 y0 y0 y0 2 stokes0)))
       (jacobian_matrix (snd (setup_jacobian lib0 0 y0 y0 y0 2 stokes0))) 1 1))
   \<and> vmult (\<lambda>a solver prec v. v)
        (jacobian_preconditioner_op (snd (setup_jacobian lib0 0 y0 y0 y0 2 stokes0)) ! 0 ! 1) (\<lambda>_. 1)
       = (\<lambda>_. 0)
   \<and> vmult (\<lambda>a solver prec v. v)
        (jacobian_op (snd (setup_jacobian lib0 0 y0 y0 y0 2 stokes0)) ! 1 ! 1) (\<lambda>_. 1)
       = (\<lambda>_. 0)"
  using operators_after_setup [OF refl refl refl refl refl refl refl refl refl refl,
      of lib0 0 y0 y0 y0 2 stokes0 "\<lambda>a solver prec v. v" "\<lambda>_. 1"]
  by simp

text \<open>
  Claim C7 as stated fails on the small discretization with \<open>alpha = 2\<close>: the system
  matrix of \<open>A_inv\<close> is the velocity block of the Jacobian matrix (entry 2), not the
  velocity block of the preconditioner matrix (entry 1/2).
\<close>

theorem operators_after_setup_counterexample:
  "block_el (block [2, 1] (jacobian_matrix (snd (setup_jacobian lib0 0 y0 y0 y0 2 stokes0))) 0 0) 1 1 = 2
   \<and> block_el (block [2, 1]
        (jacobian_preconditioner_matrix (snd (setup_jacobian lib0 0 y0 y0 y0 2 stokes0))) 0 0) 1 1 = 1 / 2
   \<and> jacobian_preconditioner_op (snd (setup_jacobian lib0 0 y0 y0 y0 2 stokes0)) ! 0 ! 0
        \<noteq> claimed_A_inv lib0 (snd (setup_jacobian lib0 0 y0 y0 y0 2 stokes0))"
proof -
  let ?s = "snd (setup_jacobian lib0 0 y0 y0 y0 2 stokes0)"
  have 1: "block_el (block [2, 1] (jacobian_matrix ?s) 0 0) 1 1 = 2"
    by (simp add: block_21 first_setup_lib0)
  have 2: "block_el (block [2, 1] (jacobian_preconditioner_matrix ?s) 0 0) 1 1 = 1 / 2"
    by (simp add: block_21 first_setup_lib0)
  have "block [2, 1] (jacobian_matrix ?s) 0 0 \<noteq> block [2, 1] (jacobian_preconditioner_matrix ?s) 0 0"
  proof
    assume "block [2, 1] (jacobian_matrix ?s) 0 0 = block [2, 1] (jacobian_preconditioner_matrix ?s) 0 0"
    then have "block_el (block [2, 1] (jacobian_matrix ?s) 0 0) 1 1
        = block_el (block [2, 1] (jacobian_preconditioner_matrix ?s) 0 0) 1 1"
      by (rule arg_cong)
    with 1 2 show False by simp
  qed
  then have 3: "jacobian_preconditioner_op ?s ! 0 ! 0 \<noteq> claimed_A_inv lib0 ?s"
    by (simp add: setup_jacobian_ops(2) [OF refl] claimed_A_inv_def first_setup_lib0_fields)
  from 1 2 3 show ?thesis by blast
qed

subsection \<open>Two setups in a row\<close>

text \<open>
  Claim C3, which the code does not meet. \<^verbatim>\<open>assemble_jacobian_matrix\<close> zeroes
  \<^verbatim>\<open>jacobian_matrix\<close> but not \<^verbatim>\<open>jacobian_preconditioner_matrix\<close> before the cells
  add their contributions. On the small discretization a second setup with the same
  arguments reproduces the Jacobian matrix, but the preconditioner matrix has entry
  \<open>(1, 1)\<close> equal to 1 instead of 1/2, and the preconditioner operator differs.
\<close>

theorem setup_twice_preconditioner:
  "jacobian_matrix (snd (setup_jacobian lib0 0 y0 y0 y0 2 (snd (setup_jacobian lib0 0 y0 y0 y0 2 stokes0))))
     = jacobian_matrix (snd (setup_jacobian lib0 0 y0 y0 y0 2 stokes0))
   \<and> jacobian_preconditioner_matrix (snd (setup_jacobian lib0 0 y0 y0 y0 2 stokes0)) 1 1 = 1 / 2
   \<and> jacobian_preconditioner_matrix
        (snd (setup_jacobian lib0 0 y0 y0 y0 2 (snd (setup_jacobian lib0 0 y0 y0 y0 2 stokes0)))) 1 1 = 1
   \<and> jacobian_preconditioner_op
        (snd (setup_jacobian lib0 0 y0 y0 y0 2 (snd (setup_jacobian lib0 0 y0 y0 y0 2 stokes0))))
      \<noteq> jacobian_preconditioner_op (snd (setup_jacobian lib0 0 y0 y0 y0 2 stokes0))"
proof -
  let ?s1 = "snd (setup_jacobian lib0 0 y0 y0 y0 2 stokes0)"
  let ?s2 = "snd (setup_jacobian lib0 0 y0 y0 y0 2 ?s1)"
  have 1: "jacobian_matrix ?s2 = jacobian_matrix ?s1"
    by (rule jacobian_matrix_setup_twice)
  have 2: "jacobian_preconditioner_matrix ?s1 1 1 = 1 / 2"
    by (simp add: first_setup_lib0)
  have 3: "jacobian_preconditioner_matrix ?s2 1 1 = 1"
    by (simp add: second_setup_lib0)
  have "block [2, 1] (jacobian_preconditioner_matrix ?s2) 1 1
      \<noteq> block [2, 1] (jacobian_preconditioner_matrix ?s1) 1 1"
  proof
    assume "block [2, 1] (jacobian_preconditioner_matrix ?s2) 1 1
      = block [2, 1] (jacobian_preconditioner_matrix ?s1) 1 1"
    then have "block_el (block [2, 1] (jacobian_preconditioner_matrix ?s2) 1 1) 0 0
      = block_el (block [2, 1] (jacobian_preconditioner_matrix ?s1) 1 1) 0 0"
      by (rule arg_cong)
    then show False
      by (simp add: block_21 first_setup_lib0 second_setup_lib0)
  qed
  then have 4: "jacobian_preconditioner_op ?s2 \<noteq> jacobian_preconditioner_op ?s1"
    by (simp add: setup_jacobian_ops(2) [OF refl] first_setup_lib0_fields)
  from 1 2 3 4 show ?thesis by blast
qed

text \<open>
  Claim C4, which the code does not meet for the preconditioner matrix, for the same
  reason: on the small discretization the local preconditioner matrix has entry
  \<open>(1, 1)\<close> equal to \<open>1 / alpha = 1/2\<close> and so has its constrained scatter, but the
  preconditioner matrix after the second setup has 1 there.
\<close>

theorem preconditioner_matrix_accumulates:
  "snd (assemble_cell lib0 2 (mu stokes0) cell0) 1 1 = 1 / 2
   \<and> scatter_cells lib0 (constraints_at lib0 0 stokes0)
        (\<lambda>c. snd (assemble_cell lib0 2 (mu stokes0) c))
        (active_cells lib0 (triangulation stokes0)) zero_matrix 1 1 = 1 / 2
   \<and> jacobian_preconditioner_matrix
        (snd (setup_jacobian lib0 0 y0 y0 y0 2 (snd (setup_jacobian lib0 0 y0 y0 y0 2 stokes0)))) 1 1 = 1"
  by (simp add: stokes0_fields assemble_cell_lib0 constraints_at_lib0 active_cells_lib0
      scatter_cells_lib0 second_setup_lib0 zero_matrix_def)

subsection \<open>What a setup does assemble\<close>

text \<open>
  After a setup the Jacobian matrix is the constrained scatter, from zero, of the local
  matrices with entries \<open>alpha (phi_u_i . phi_u_j) + mu (sym_grad_i : sym_grad_j)
  - div_i phi_p_j - phi_p_i div_j\<close> summed with the quadrature weights, and every locally
  owned constrained diagonal entry is 1.
\<close>

theorem jacobian_matrix_after_setup:
  assumes "s' = snd (setup_jacobian lib t sol sol_dot unused alpha s)"
    and "cm = constraints s'"
  shows "jacobian_matrix s' =
           set_constrained_diagonal cm (locally_owned_elements sol)
             (scatter_cells lib cm (\<lambda>c. fst (assemble_cell lib alpha (mu s) c))
                (active_cells lib (triangulation s)) zero_matrix)
       \<and> (\<forall>c i j. i < dofs_per_cell lib \<and> j < dofs_per_cell lib \<longrightarrow>
            fst (assemble_cell lib alpha (mu s) c) i j =
              (\<Sum>q\<leftarrow>[0..<n_q_points lib].
                 (alpha * dot (u_value c i q) (u_value c j q)
                  + mu s * scalar_product (u_symmetric_gradient c i q) (u_symmetric_gradient c j q)
                  - u_divergence c i q * p_value c j q
                  - p_value c i q * u_divergence c j q) * JxW c q))
       \<and> (\<forall>j \<in> set (locally_owned_elements sol). is_constrained cm j \<longrightarrow> jacobian_matrix s' j j = 1)"
  unfolding assms
  by (simp add: setup_jacobian_fields assemble_cell_entries cell_matrix_term_formula
      set_constrained_diagonal_entry)

theorem jacobian_matrix_after_setup_witness:
  "0 \<in> set (locally_owned_elements y0)
   \<and> is_constrained (constraints (snd (setup_jacobian lib0 0 y0 y0 y0 2 stokes0))) 0
   \<and> jacobian_matrix (snd (setup_jacobian lib0 0 y0 y0 y0 2 stokes0)) 0 0 = 1
   \<and> (1::nat) < dofs_per_cell lib0
   \<and> fst (assemble_cell lib0 2 (mu stokes0) cell0) 1 1 = 2"
proof -
  have h: "0 \<in> set (locally_owned_elements y0)"
    "is_constrained (constraints (snd (setup_jacobian lib0 0 y0 y0 y0 2 stokes0))) 0"
    "(1::nat) < dofs_per_cell lib0"
    by (simp add: y0_def)
      (simp add: setup_jacobian_fields constraints_at_lib0 is_constrained_cm0,
       simp add: lib0_def)
  note T = jacobian_matrix_after_setup [OF refl refl, of lib0 0 y0 y0 y0 2 stokes0]
  from T h have 1: "jacobian_matrix (snd (setup_jacobian lib0 0 y0 y0 y0 2 stokes0)) 0 0 = 1"
    by blast
  from T h(3) have "fst (assemble_cell lib0 2 (mu stokes0) cell0) 1 1 =
      (\<Sum>q\<leftarrow>[0..<n_q_points lib0].
         (2 * dot (u_value cell0 1 q) (u_value cell0 1 q)
          + mu stokes0 * scalar_product (u_symmetric_gradient cell0 1 q) (u_symmetric_gradient cell0 1 q)
          - u_divergence cell0 1 q * p_value cell0 1 q
          - p_value cell0 1 q * u_divergence cell0 1 q) * JxW cell0 q)"
    by blast
  then have 2: "fst (assemble_cell lib0 2 (mu stokes0) cell0) 1 1 = 2"
    by (simp add: lib0_def cell0_def dot_def scalar_product_def)
  from h 1 2 show ?thesis by blast
qed

text \<open>
  After a setup the preconditioner matrix is what it held before the call plus the
  constrained scatter of the local matrices with entries \<open>(1 / alpha) (phi_u_i . phi_u_j)
  + mu (grad_i : grad_j) + (1 / mu) phi_p_i phi_p_j\<close> summed with the quadrature weights;
  it is that scatter alone when the matrix was zero before the call, as it is after
  \<^verbatim>\<open>setup_dofs\<close>.
\<close>

theorem preconditioner_matrix_after_setup:
  assumes "s' = snd (setup_jacobian lib t sol sol_dot unused alpha s)"
  shows "jacobian_preconditioner_matrix s' =
           scatter_cells lib (constraints s') (\<lambda>c. snd (assemble_cell lib alpha (mu s) c))
             (active_cells lib (triangulation s)) (jacobian_preconditioner_matrix s)
       \<and> (\<forall>c i j. i < dofs_per_cell lib \<and> j < dofs_per_cell lib \<longrightarrow>
            snd (assemble_cell lib alpha (mu s) c) i j =
              (\<Sum>q\<leftarrow>[0..<n_q_points lib].
                 ((1 / alpha) * dot (u_value c i q) (u_value c j q)
                  + mu s * scalar_product (u_gradient c i q) (u_gradient c j q)
                  + (1 / mu s) * (p_value c i q * p_value c j q)) * JxW c q))
       \<and> (jacobian_preconditioner_matrix s = zero_matrix \<longrightarrow>
            jacobian_preconditioner_matrix s' =
              scatter_cells lib (constraints s') (\<lambda>c. snd (assemble_cell lib alpha (mu s) c))
                (active_cells lib (triangulation s)) zero_matrix)"
  unfolding assms
  by (simp add: setup_jacobian_fields assemble_cell_entries cell_prec_term_formula)


theorem preconditioner_matrix_after_setup_witness:
  "jacobian_preconditioner_matrix stokes0 = zero_matrix
   \<and> jacobian_preconditioner_matrix (snd (setup_jacobian lib0 0 y0 y0 y0 2 stokes0)) =
       scatter_cells lib0 (constraints (snd (setup_jacobian lib0 0 y0 y0 y0 2 stokes0)))
         (\<lambda>c. snd (assemble_cell lib0 2 (mu stokes0) c))
         (active_cells lib0 (triangulation stokes0)) zero_matrix
   \<and> (1::nat) < dofs_per_cell lib0
   \<and> snd (assemble_cell lib0 2 (mu stokes0) cell0) 1 1 = 1 / 2"
proof -
  have h: "jacobian_preconditioner_matrix stokes0 = zero_matrix" "(1::nat) < dofs_per_cell lib0"
    by (simp_all add: stokes0_def lib0_def)
  note T = preconditioner_matrix_after_setup [OF refl, of lib0 0 y0 y0 y0 2 stokes0]
  from T h(1) have 1:
    "jacobian_preconditioner_matrix (snd (setup_jacobian lib0 0 y0 y0 y0 2 stokes0)) =
       scatter_cells lib0 (constraints (snd (setup_jacobian lib0 0 y0 y0 y0 2 stokes0)))
         (\<lambda>c. snd (assemble_cell lib0 2 (mu stokes0) c))
         (active_cells lib0 (triangulation stokes0)) zero_matrix"
    by blast
  from T h(2) have "snd (assemble_cell lib0 2 (mu stokes0) cell0) 1 1 =
      (\<Sum>q\<leftarrow>[0..<n_q_points lib0].
         ((1 / 2) * dot (u_value cell0 1 q) (u_value cell0 1 q)
          + mu stokes0 * scalar_product (u_gradient cell0 1 q) (u_gradient cell0 1 q)
          + (1 / mu stokes0) * (p_value cell0 1 q * p_value cell0 1 q)) * JxW cell0 q)"
    by blast
  then have 2: "snd (assemble_cell lib0 2 (mu stokes0) cell0) 1 1 = 1 / 2"
    by (simp add: lib0_def cell0_def dot_def scalar_product_def)
  from h 1 2 show ?thesis by blast
qed

end
